theory Spec2Isabelle
  imports Complex_Main "HOL-Library.List_Lexorder" "HOL-Library.Multiset"
begin

section \<open>Python values shared by both modules\<close>

text \<open>
  The exceptions the modelled code can raise.  A function of the source that can raise
  returns \<open>py_error + 'a\<close>, with \<open>Inl\<close> for the exception.
\<close>

datatype py_error = ValueError | TypeError | KeyError | IndexError
  | ZeroDivisionError | OverflowError | IndexingError

section \<open>core/statistics.py\<close>

text \<open>
  A numeric \<open>pd.Series\<close> is a list of cells, \<open>None\<close> standing for NaN
  (a missing value); the index of a cell is its position.  Binary64 arithmetic is
  idealised as arithmetic on the reals, and the result NaN (\<open>np.nan\<close>, the
  undefined-result marker) is \<open>None\<close>.  The sums of the model are the sums of the
  code where binary64 adds without rounding, as it does for weights 1.0 over fewer than
  \<open>2 ^ 53\<close> rows; which element a comparison of cumulative weights selects is stated
  below for such weights only.
\<close>

type_synonym series = "real option list"

text \<open>\<open>values.dropna()\<close>: the non-missing cells, each with its index label.\<close>

fun dropna_from :: "nat \<Rightarrow> 'a option list \<Rightarrow> (nat \<times> 'a) list" where
  "dropna_from i [] = []"
| "dropna_from i (None # s) = dropna_from (Suc i) s"
| "dropna_from i (Some v # s) = (i, v) # dropna_from (Suc i) s"

definition dropna :: "'a option list \<Rightarrow> (nat \<times> 'a) list" where
  "dropna s = dropna_from 0 s"

text \<open>\<open>weights.loc[idx]\<close>: label lookup, KeyError on a label the series lacks.\<close>

definition loc :: "'a list \<Rightarrow> nat list \<Rightarrow> py_error + 'a list" where
  "loc s idx = (if list_all (\<lambda>i. i < length s) idx then Inr (map (nth s) idx)
                else Inl KeyError)"

definition fillna :: "'a \<Rightarrow> 'a option list \<Rightarrow> 'a list" where
  "fillna d s = map (\<lambda>x. case x of None \<Rightarrow> d | Some v \<Rightarrow> v) s"

text \<open>
  \<open>np.average(a, weights=w)\<close> for arrays of one length: numpy raises
  ZeroDivisionError ("Weights sum to zero, can't be normalized") when the weights sum to
  zero, and returns the weighted sum over the sum of the weights otherwise.
\<close>

definition np_average :: "real list \<Rightarrow> real list \<Rightarrow> py_error + real" where
  "np_average a w = (if sum_list w = 0 then Inl ZeroDivisionError
                     else Inr (sum_list (map2 (*) a w) / sum_list w))"

text \<open>\<open>Series.mean()\<close> of a non-empty series without missing values.\<close>

definition mean :: "real list \<Rightarrow> real" where
  "mean xs = sum_list xs / real (length xs)"

definition weighted_mean :: "series \<Rightarrow> series option \<Rightarrow> py_error + real option" where
  "weighted_mean values weights =
    (let valid = dropna values in
     if length valid = 0 then Inr None
     else (case weights of
        Some ws \<Rightarrow>
          (case loc ws (map fst valid) of
             Inl e \<Rightarrow> Inl e
           | Inr wl \<Rightarrow>
               (case np_average (map snd valid) (fillna 1 wl) of
                  Inl e \<Rightarrow> Inl e
                | Inr r \<Rightarrow> Inr (Some r)))
      | None \<Rightarrow> Inr (Some (mean (map snd valid)))))"

text \<open>
  \<open>Series.median()\<close> of a non-empty series without missing values: the middle
  value of the sorted values, the mean of the two middle values when their number is even.
\<close>

definition pd_median :: "real list \<Rightarrow> real" where
  "pd_median xs =
    (let s = sort xs; n = length s in
     if odd n then s ! (n div 2) else (s ! (n div 2 - 1) + s ! (n div 2)) / 2)"

text \<open>\<open>valid.argsort()\<close>: the positions of the values in ascending order of value.\<close>

definition argsort :: "real list \<Rightarrow> nat list" where
  "argsort xs = map snd (sort_key fst (zip xs [0..<length xs]))"

text \<open>\<open>np.cumsum\<close>.\<close>

fun cumsum_from :: "real \<Rightarrow> real list \<Rightarrow> real list" where
  "cumsum_from acc [] = []"
| "cumsum_from acc (x # xs) = (acc + x) # cumsum_from (acc + x) xs"

definition cumsum :: "real list \<Rightarrow> real list" where
  "cumsum xs = cumsum_from 0 xs"

text \<open>
  \<open>sorted_vals[cumsum >= cutoff][0]\<close>: the first sorted value whose cumulative
  weight reaches the cutoff; IndexError when the mask selects nothing.
\<close>

definition weighted_median :: "series \<Rightarrow> series option \<Rightarrow> py_error + real option" where
  "weighted_median values weights =
    (let valid = dropna values in
     if length valid = 0 then Inr None
     else (case weights of
        None \<Rightarrow> Inr (Some (pd_median (map snd valid)))
      | Some ws \<Rightarrow>
          (case loc ws (map fst valid) of
             Inl e \<Rightarrow> Inl e
           | Inr wl \<Rightarrow>
               (let w = fillna 1 wl;
                    sorted_idx = argsort (map snd valid);
                    sorted_vals = map (nth (map snd valid)) sorted_idx;
                    sorted_weights = map (nth w) sorted_idx;
                    cs = cumsum sorted_weights;
                    cutoff = last cs / 2
                in case filter (\<lambda>(v, c). c \<ge> cutoff) (zip sorted_vals cs) of
                     [] \<Rightarrow> Inl IndexError
                   | (v, c) # rest \<Rightarrow> Inr (Some v)))))"

text \<open>
  \<open>Series.std()\<close>: pandas' default is the sample standard deviation (ddof = 1).
\<close>

definition pd_std :: "real list \<Rightarrow> real" where
  "pd_std xs = sqrt (sum_list (map (\<lambda>x. (x - mean xs)\<^sup>2) xs) / real (length xs - 1))"

definition weighted_std :: "series \<Rightarrow> series option \<Rightarrow> py_error + real option" where
  "weighted_std values weights =
    (let valid = dropna values in
     if length valid \<le> 1 then Inr None
     else (case weights of
        None \<Rightarrow> Inr (Some (pd_std (map snd valid)))
      | Some ws \<Rightarrow>
          (case loc ws (map fst valid) of
             Inl e \<Rightarrow> Inl e
           | Inr wl \<Rightarrow>
               (let w = fillna 1 wl in
                case np_average (map snd valid) w of
                  Inl e \<Rightarrow> Inl e
                | Inr avg \<Rightarrow>
                    (case np_average (map (\<lambda>x. (x - avg)\<^sup>2) (map snd valid)) w of
                       Inl e \<Rightarrow> Inl e
                     | Inr variance \<Rightarrow> Inr (Some (sqrt variance)))))))"

subsection \<open>Strings and rounding\<close>

text \<open>
  A Python \<open>str\<close> is the list of its code points, so that \<open>len\<close>, comparison and the
  regular expressions count what Python counts; \<open>S\<close> turns an ASCII literal into one.
  Python compares strings lexicographically by code point, which is the order on lists.
\<close>

type_synonym pystr = "nat list"

definition S :: "string \<Rightarrow> pystr" where
  "S s = map of_char s"

text \<open>\<open>str.isspace\<close> for one code point, and \<open>str.strip()\<close>.\<close>

definition is_space :: "nat \<Rightarrow> bool" where
  "is_space c = ((9 \<le> c \<and> c \<le> 13) \<or> (28 \<le> c \<and> c \<le> 32) \<or> c = 133 \<or> c = 160
     \<or> c = 5760 \<or> (8192 \<le> c \<and> c \<le> 8202) \<or> c = 8232 \<or> c = 8233 \<or> c = 8239
     \<or> c = 8287 \<or> c = 12288)"

definition strip :: "pystr \<Rightarrow> pystr" where
  "strip s = dropWhile is_space (rev (dropWhile is_space (rev s)))"

text \<open>
  Rounding to the nearest integer, ties to the even one, and rounding to \<open>d\<close>
  decimals on top of it (\<open>round(x, d)\<close>, \<open>.round(d)\<close>); binary64 representation
  error is not modelled.
\<close>

definition round_half_even :: "real \<Rightarrow> int" where
  "round_half_even x =
    (let f = \<lfloor>x\<rfloor>; d = x - of_int f in
     if d < 1 / 2 then f else if 1 / 2 < d then f + 1 else if even f then f else f + 1)"

definition round_to :: "nat \<Rightarrow> real \<Rightarrow> real" where
  "round_to d x = of_int (round_half_even (x * 10 ^ d)) / 10 ^ d"

subsection \<open>Frequency tables\<close>

text \<open>
  A categorical column is a list of cells, \<open>None\<close> for a missing one and
  \<open>Some s\<close> for the string \<open>s\<close>.

  \<open>unique\<close> lists the distinct values in the order of their first occurrence, which is
  the order of \<open>Series.unique()\<close> and of \<open>value_counts(sort=False)\<close>;
  \<open>groupby\<close> sorts its keys (\<open>sort=True\<close> is the default of pandas).
\<close>

definition unique :: "'a list \<Rightarrow> 'a list" where
  "unique xs = rev (remdups (rev xs))"

definition value_counts :: "'a list \<Rightarrow> ('a \<times> real) list" where
  "value_counts xs = map (\<lambda>k. (k, real (count_list xs k))) (unique xs)"

definition groupby_sum :: "('a::linorder \<times> real) list \<Rightarrow> ('a \<times> real) list" where
  "groupby_sum kvs =
     map (\<lambda>k. (k, sum_list (map snd (filter (\<lambda>kv. fst kv = k) kvs))))
       (sort (remdups (map fst kvs)))"

text \<open>
  \<open>freq.sort_values(ascending=False)\<close>; rows of equal count are kept in their order
  here, which pandas leaves to the sorting algorithm.
\<close>

definition sort_values_desc :: "('a \<times> real) list \<Rightarrow> ('a \<times> real) list" where
  "sort_values_desc freq = sort_key (\<lambda>kv. - snd kv) freq"

text \<open>The rows of the result: Kategoria, N, \%.\<close>

definition frequency_table ::
  "pystr option list \<Rightarrow> series option \<Rightarrow> bool \<Rightarrow> py_error + (pystr \<times> real \<times> real) list" where
  "frequency_table series weights sort_by_count =
    (let valid = filter (\<lambda>iv. strip (snd iv) \<noteq> []) (dropna series) in
     case (case weights of
             Some ws \<Rightarrow>
               (case loc ws (map fst valid) of
                  Inl e \<Rightarrow> Inl e
                | Inr wl \<Rightarrow>
                    (let w = fillna 1 wl in
                     Inr (groupby_sum (zip (map snd valid) w), sum_list w)))
           | None \<Rightarrow> Inr (value_counts (map snd valid), real (length valid))) of
       Inl e \<Rightarrow> Inl e
     | Inr (freq0, tot) \<Rightarrow>
         (let freq = (if sort_by_count then sort_values_desc freq0 else freq0) in
          Inr (map (\<lambda>kv. (fst kv, snd kv,
                   if tot > 0 then round_to 1 (snd kv / tot * 100) else 0)) freq)))"

subsection \<open>Cross-tabulation of frequencies\<close>

text \<open>
  A \<open>DataFrame\<close> is its row index and its columns, each a label with one cell per
  row; \<open>None\<close> is a NaN cell.
\<close>

type_synonym 'a frame = "pystr list \<times> (pystr \<times> 'a list) list"

text \<open>
  Series are aligned on their index, the row position.  The mask
  \<open>data_col.notna() & group_col.notna()\<close> has the longer of the two indexes and is
  false where either cell is absent.  \<open>weights[valid_mask]\<close> raises IndexingError
  when the weights have a label the mask lacks; rows the weights lack get a NaN weight
  when the table is built.
\<close>

definition align_weights :: "nat \<Rightarrow> series \<Rightarrow> series" where
  "align_weights n ws = ws @ replicate (n - length ws) None"

text \<open>
  The rows where both the data cell and the group cell are present
  (\<open>data_col.notna() & group_col.notna()\<close>), with the weight of the row.
\<close>

definition valid_rows ::
  "'a option list \<Rightarrow> 'b option list \<Rightarrow> 'w list \<Rightarrow> ('a \<times> 'b \<times> 'w) list" where
  "valid_rows data_col group_col w =
     concat (map (\<lambda>(d, g, x). case (d, g) of (Some a, Some b) \<Rightarrow> [(a, b, x)] | _ \<Rightarrow> [])
       (zip data_col (zip group_col w)))"

text \<open>
  \<open>pd.crosstab(index, columns)\<close> counts the rows of every pair of categories, 0 where
  there is none; \<open>pd.crosstab(index, columns, values=w, aggfunc='sum')\<close> sums the weights
  of every pair, a NaN weight adding nothing, and leaves NaN where a pair has no row.
  Both sort the row and the column categories.
\<close>

definition cell_rows :: "('a \<times> 'b \<times> 'w) list \<Rightarrow> 'a \<Rightarrow> 'b \<Rightarrow> 'w list" where
  "cell_rows obs r c = map (\<lambda>t. snd (snd t)) (filter (\<lambda>t. fst t = r \<and> fst (snd t) = c) obs)"

definition crosstab_count :: "(pystr \<times> pystr \<times> 'w) list \<Rightarrow> real option frame" where
  "crosstab_count obs =
    (let rows = sort (remdups (map fst obs));
         cols = sort (remdups (map (\<lambda>t. fst (snd t)) obs))
     in (rows, map (\<lambda>c. (c, map (\<lambda>r. Some (real (length (cell_rows obs r c)))) rows)) cols))"

definition crosstab_sum :: "(pystr \<times> pystr \<times> real option) list \<Rightarrow> real option frame" where
  "crosstab_sum obs =
    (let rows = sort (remdups (map fst obs));
         cols = sort (remdups (map (\<lambda>t. fst (snd t)) obs))
     in (rows, map (\<lambda>c. (c, map (\<lambda>r. let ws = cell_rows obs r c in
                                   if ws = [] then None else Some (sum_list (fillna 0 ws))) rows))
               cols))"

text \<open>
  One column of the table through lines 190 to 193: its sum skipping NaN, the sum replaced
  by NaN when it is 0, the division, the factor 100, the rounding to one decimal and
  \<open>fillna(0)\<close>.
\<close>

definition pct_column :: "real option list \<Rightarrow> real list" where
  "pct_column cells =
    (let col_sum = sum_list (fillna 0 cells);
         col_sum' = (if col_sum = 0 then None else Some col_sum)
     in map (\<lambda>x. case (x, col_sum') of
                 (Some v, Some t) \<Rightarrow> round_to 1 (v / t * 100)
               | _ \<Rightarrow> 0) cells)"

definition cross_tab_frequencies ::
  "pystr option list \<Rightarrow> pystr option list \<Rightarrow> series option \<Rightarrow> py_error + real frame" where
  "cross_tab_frequencies data_col group_col weights =
    (let n = max (length data_col) (length group_col) in
     case (case weights of
             Some ws \<Rightarrow>
               if n < length ws then Inl IndexingError
               else Inr (crosstab_sum (valid_rows data_col group_col (align_weights n ws)))
           | None \<Rightarrow> Inr (crosstab_count (valid_rows data_col group_col (replicate n ()))))
     of Inl e \<Rightarrow> Inl e
      | Inr (rows, cols) \<Rightarrow> Inr (rows, map (\<lambda>(c, cells). (c, pct_column cells)) cols))"

text \<open>
  The total weight of one breakdown category \<open>c\<close>: the weights of the valid rows of
  that category (their number without weights), a NaN weight counting 0.
\<close>

definition category_weight ::
  "pystr option list \<Rightarrow> pystr option list \<Rightarrow> series option \<Rightarrow> pystr \<Rightarrow> real" where
  "category_weight data_col group_col weights c =
    (let n = max (length data_col) (length group_col) in
     case weights of
       None \<Rightarrow> real (length (filter (\<lambda>t. fst (snd t) = c)
                 (valid_rows data_col group_col (replicate n ()))))
     | Some ws \<Rightarrow> sum_list (fillna 0 (map (\<lambda>t. snd (snd t))
                 (filter (\<lambda>t. fst (snd t) = c)
                    (valid_rows data_col group_col (align_weights n ws))))))"

subsection \<open>Significance tests\<close>





section \<open>core/data\_loader.py\<close>

subsection \<open>Strings, patterns and numbers\<close>

text \<open>
  \<open>str.lower()\<close> on the letters of the survey's language: the ASCII capitals and
  the capitals of the Polish alphabet; every other code point is left as it is.
\<close>

definition lower_cp :: "nat \<Rightarrow> nat" where
  "lower_cp c =
    (if 65 \<le> c \<and> c \<le> 90 then c + 32
     else if c = 211 then 243
     else if c \<in> {260, 262, 280, 321, 323, 346, 377, 379} then c + 1
     else c)"

definition lower :: "pystr \<Rightarrow> pystr" where
  "lower s = map lower_cp s"

text \<open>\<open>kw in s\<close> for two strings: \<open>kw\<close> occurs in \<open>s\<close> as a substring.\<close>

fun is_prefix :: "pystr \<Rightarrow> pystr \<Rightarrow> bool" where
  "is_prefix [] s = True"
| "is_prefix (k # kw) [] = False"
| "is_prefix (k # kw) (c # s) = (k = c \<and> is_prefix kw s)"

fun contains :: "pystr \<Rightarrow> pystr \<Rightarrow> bool" where
  "contains kw [] = (kw = [])"
| "contains kw (c # s) = (is_prefix kw (c # s) \<or> contains kw s)"

text \<open>
  \<open>\\d\<close> is modelled on the ASCII digits, and \<open>int\<close> of a run of them.
\<close>

definition is_digit :: "nat \<Rightarrow> bool" where
  "is_digit c = (48 \<le> c \<and> c \<le> 57)"

definition int_of_digits :: "pystr \<Rightarrow> int" where
  "int_of_digits ds = foldl (\<lambda>n c. 10 * n + (int c - 48)) 0 ds"

text \<open>
  \<open>LIKERT_PREFIX_RE.match(v)\<close>, the pattern \<^verbatim>\<open>^(\d+)\s*:\s*(.+)\<close>: the two groups
  of the match, or \<open>None\<close>.  The digits and both runs of whitespace are maximal (a
  shorter run leaves a character the next item refuses); the dot matches everything but
  a line feed (code point 10).  When only whitespace follows the colon the second run
  gives back its last character that is not a line feed, and the group is that character.
\<close>

definition LIKERT_PREFIX_RE :: "pystr \<Rightarrow> (pystr \<times> pystr) option" where
  "LIKERT_PREFIX_RE v =
    (let ds = takeWhile is_digit v; r1 = dropWhile is_space (dropWhile is_digit v) in
     if ds = [] then None
     else (case r1 of
        [] \<Rightarrow> None
      | c # r2 \<Rightarrow>
          if c \<noteq> 58 then None
          else (let r3 = dropWhile is_space r2 in
            if r3 \<noteq> [] then Some (ds, takeWhile (\<lambda>x. x \<noteq> 10) r3)
            else (case dropWhile (\<lambda>x. x = 10) (rev r2) of
                    [] \<Rightarrow> None
                  | x # xs \<Rightarrow> Some (ds, [x])))))"

text \<open>
  A Python float: a finite value (binary64 rounding is not modelled), an infinity or NaN.
  Every comparison with NaN is false.
\<close>

datatype pyfloat = Fin real | PInf | NInf | NaN

fun float_lt :: "pyfloat \<Rightarrow> pyfloat \<Rightarrow> bool" where
  "float_lt NaN y = False"
| "float_lt x NaN = False"
| "float_lt PInf y = False"
| "float_lt x NInf = False"
| "float_lt NInf y = True"
| "float_lt x PInf = True"
| "float_lt (Fin a) (Fin b) = (a < b)"

text \<open>
  \<open>min(xs)\<close> and \<open>max(xs)\<close> of a non-empty list \<open>x # xs\<close>: the builtin keeps
  the first item and replaces it by a later one that is smaller (greater).
\<close>

definition py_min :: "pyfloat \<Rightarrow> pyfloat list \<Rightarrow> pyfloat" where
  "py_min x xs = foldl (\<lambda>m y. if float_lt y m then y else m) x xs"

definition py_max :: "pyfloat \<Rightarrow> pyfloat list \<Rightarrow> pyfloat" where
  "py_max x xs = foldl (\<lambda>m y. if float_lt m y then y else m) x xs"

text \<open>
  \<open>float(v)\<close> for a string, \<open>None\<close> when it raises ValueError.  The text is stripped;
  after an optional sign it is \<open>inf\<close>, \<open>infinity\<close> or \<open>nan\<close> in any case, or a
  decimal literal: digits, an optional point and digits, an optional exponent; one
  underscore may stand between two digits.  A value beyond the binary64 range is an
  infinity.
\<close>

definition digitpart :: "pystr \<Rightarrow> bool" where
  "digitpart s =
    (s \<noteq> [] \<and> list_all (\<lambda>c. is_digit c \<or> c = 95) s \<and> is_digit (hd s) \<and> is_digit (last s)
     \<and> \<not> contains [95, 95] s)"

definition digits_value :: "pystr \<Rightarrow> real" where
  "digits_value s = of_int (int_of_digits (filter is_digit s))"

definition decimal_value :: "pystr \<Rightarrow> real option" where
  "decimal_value s =
    (let mant = takeWhile (\<lambda>c. c \<noteq> 101 \<and> c \<noteq> 69) s;
         ex = dropWhile (\<lambda>c. c \<noteq> 101 \<and> c \<noteq> 69) s;
         ip = takeWhile (\<lambda>c. c \<noteq> 46) mant;
         fp = drop 1 (dropWhile (\<lambda>c. c \<noteq> 46) mant);
         ed = (case drop 1 ex of [] \<Rightarrow> [] | c # r \<Rightarrow> if c = 43 \<or> c = 45 then r else c # r);
         eneg = (case drop 1 ex of [] \<Rightarrow> False | c # r \<Rightarrow> c = 45)
     in if (ip = [] \<and> fp = []) \<or> (ip \<noteq> [] \<and> \<not> digitpart ip) \<or> (fp \<noteq> [] \<and> \<not> digitpart fp)
           \<or> (ex \<noteq> [] \<and> \<not> digitpart ed)
        then None
        else (let m = digits_value ip + digits_value fp / 10 ^ length (filter is_digit fp);
                  e = nat (int_of_digits (filter is_digit ed))
              in Some (if eneg then m / 10 ^ e else m * 10 ^ e)))"

definition py_float :: "pystr \<Rightarrow> pyfloat option" where
  "py_float v =
    (let s = strip v;
         neg = (case s of [] \<Rightarrow> False | c # r \<Rightarrow> c = 45);
         body = (case s of [] \<Rightarrow> [] | c # r \<Rightarrow> if c = 43 \<or> c = 45 then r else c # r)
     in if lower body = S ''inf'' \<or> lower body = S ''infinity''
        then Some (if neg then NInf else PInf)
        else if lower body = S ''nan'' then Some NaN
        else (case decimal_value body of
                None \<Rightarrow> None
              | Some x \<Rightarrow>
                  if 2 ^ 1024 - 2 ^ 970 \<le> x then Some (if neg then NInf else PInf)
                  else Some (Fin (if neg then - x else x))))"

subsection \<open>Constants\<close>

definition QT_NUMERIC_SCALE :: pystr where "QT_NUMERIC_SCALE = S ''numeric_scale''"
definition QT_LIKERT :: pystr where "QT_LIKERT = S ''likert''"
definition QT_MULTI_CHOICE :: pystr where "QT_MULTI_CHOICE = S ''multiple_choice''"
definition QT_SINGLE_CHOICE :: pystr where "QT_SINGLE_CHOICE = S ''single_choice''"
definition QT_OPEN :: pystr where "QT_OPEN = S ''open_text''"

definition CT_HBAR_MEANS :: pystr where "CT_HBAR_MEANS = S ''horizontal_bar_means''"
definition CT_PIE :: pystr where "CT_PIE = S ''pie''"
definition CT_FREQ_BAR :: pystr where "CT_FREQ_BAR = S ''frequency_bar''"
definition CT_MULTI_BAR :: pystr where "CT_MULTI_BAR = S ''multiple_choice_bar''"

text \<open>
  The letters beyond ASCII in the tables are written by code point:
  263 is c with acute, 380 z with dot above, 281 e with ogonek, 347 s with acute,
  243 o with acute and 322 l with stroke.
\<close>

definition SPECIAL_VALUES :: "pystr set" where
  "SPECIAL_VALUES =
    {S ''nie wiem'', S ''nie wiem/ nie znam'', S ''nie wiem/nie znam'', S ''nie wiem/nie znam '',
     S ''trudno powiedzie'' @ [263], S ''nie wiem/ trudno powiedzie'' @ [263],
     S ''nie wiem, trudno powiedzie'' @ [263],
     S ''odmowa odpowiedzi'', S ''odmowa'', S ''-'', S '''', S ''nan'', S ''none'',
     S ''nie dotyczy'', S ''nd'', S ''n/d''}"

definition META_KEYWORDS :: "pystr list" where
  "META_KEYWORDS =
    [S ''numer wywiadu'', S ''aran'' @ [380] @ S ''acja'', S ''imi'' @ [281], S ''nazwisko'',
     S ''telefon'', S ''kod pocztowy'', S ''miejscowo'' @ [347, 263], S ''waga'',
     S ''[og'' @ [243, 322] @ S ''em]'', S ''wyniki dla'', S ''makroregion'', S ''segmentacja'',
     S ''segment'']"

definition EXCLUDE_KEYWORDS :: "pystr list" where
  "EXCLUDE_KEYWORDS = [S ''inna, jaka'', S ''inne (jakie'']"

definition DEMOGRAPHIC_QIDS :: "pystr set" where
  "DEMOGRAPHIC_QIDS =
    {S ''M1'', S ''M1a'', S ''M1b'', S ''M2a'', S ''M3'', S ''M4'', S ''M5'', S ''M6'',
     S ''M7'', S ''M8'', S ''M9'', S ''M10'', S ''M11''}"

definition EXCLUDE_QIDS :: "pystr set" where
  "EXCLUDE_QIDS = {S ''M2''}"

subsection \<open>Column signatures\<close>

text \<open>
  A column of the data frame is a list of cells: \<open>None\<close> for a missing cell,
  \<open>Some s\<close> for a cell whose \<open>str\<close> is \<open>s\<close>.

  The dict \<open>_detect_column_type\<close> returns is a value of \<open>col_type\<close>: one
  constructor for each \<open>'type'\<close>, with the other keys of the dict as its arguments.
\<close>

type_synonym column = "pystr option list"

datatype col_type =
    Empty
  | MultiChoice
  | Likert (likert_min: int) (likert_max: int) (likert_labels: "int \<rightharpoonup> pystr")
      (likert_special: "int set")
  | NumericScale (numeric_min: pyfloat) (numeric_max: pyfloat)
  | OpenText (open_n_unique: nat)
  | SingleChoice (categories: "pystr list") (n_unique: nat)

text \<open>The key \<open>'type'\<close> of the dict.\<close>

fun type_of :: "col_type \<Rightarrow> pystr" where
  "type_of Empty = S ''empty''"
| "type_of MultiChoice = QT_MULTI_CHOICE"
| "type_of (Likert lo hi labels special) = QT_LIKERT"
| "type_of (NumericScale lo hi) = QT_NUMERIC_SCALE"
| "type_of (OpenText n) = QT_OPEN"
| "type_of (SingleChoice cats n) = QT_SINGLE_CHOICE"

text \<open>\<open>values = series.dropna().astype(str).str.strip(); values = values[values != '']\<close>\<close>

definition stripped_values :: "column \<Rightarrow> pystr list" where
  "stripped_values series = filter (\<lambda>v. v \<noteq> []) (map (\<lambda>iv. strip (snd iv)) (dropna series))"

text \<open>The label of a code carries a cue of a non-answer.\<close>

definition is_sentinel_label :: "pystr \<Rightarrow> bool" where
  "is_sentinel_label lbl = list_ex (\<lambda>sv. contains sv lbl) [S ''nie wiem'', S ''odmowa'', S ''trudno'']"

text \<open>
  Lines 86 to 92: the codes of the matching values in row order, and the dict of their
  labels, a later value overwriting the label an earlier one gave to the same code.
\<close>

definition likert_nums :: "pystr list \<Rightarrow> int list" where
  "likert_nums values = map (\<lambda>m. int_of_digits (fst m)) (List.map_filter LIKERT_PREFIX_RE values)"

definition likert_labels_of :: "pystr list \<Rightarrow> (int \<rightharpoonup> pystr)" where
  "likert_labels_of values =
     foldl (\<lambda>labels m. labels(int_of_digits (fst m) \<mapsto> strip (snd m))) Map.empty
       (List.map_filter LIKERT_PREFIX_RE values)"

text \<open>
  \<open>_detect_column_type\<close>.  In the numeric branch \<open>min\<close> and \<open>max\<close> are taken of
  a list the test before has made non-empty.
\<close>

definition detect_column_type :: "column \<Rightarrow> col_type" where
  "detect_column_type series =
    (let values = stripped_values series in
     if length values = 0 then Empty
     else if set values \<subseteq> {S ''MENTIONED'', S ''NOT MENTIONED''} then MultiChoice
     else if real (length (filter (\<lambda>v. LIKERT_PREFIX_RE v \<noteq> None) values))
               > real (length values) * 0.4
     then (let labels = likert_labels_of values;
               all_nums = sorted_list_of_set (set (likert_nums values));
               special = set (filter (\<lambda>n. is_sentinel_label
                                 (lower (case labels n of None \<Rightarrow> [] | Some l \<Rightarrow> l))) all_nums);
               valid_nums = filter (\<lambda>n. n \<notin> special) all_nums
           in Likert (if valid_nums \<noteq> [] then Min (set valid_nums) else Min (set all_nums))
                     (if valid_nums \<noteq> [] then Max (set valid_nums) else Max (set all_nums))
                     labels special)
     else (let numeric_vals = List.map_filter py_float values;
               text_vals = filter (\<lambda>v. py_float v = None \<and> strip (lower v) \<notin> SPECIAL_VALUES) values
           in case numeric_vals of
                x # xs \<Rightarrow>
                  if real (length numeric_vals) > real (length values) * 0.5 \<and> length text_vals = 0
                  then NumericScale (py_min x xs) (py_max x xs)
                  else if card (set values) > 15 then OpenText (card (set values))
                  else SingleChoice (sorted_list_of_set (set values)) (card (set values))
              | [] \<Rightarrow>
                  if card (set values) > 15 then OpenText (card (set values))
                  else SingleChoice (sorted_list_of_set (set values)) (card (set values))))"

text \<open>
  Two conditions on the values of a column: no two of them carry the same likert code
  with different labels, and none of them parses to NaN.
\<close>

definition one_label_per_code :: "pystr list \<Rightarrow> bool" where
  "one_label_per_code values =
    list_all (\<lambda>v. list_all (\<lambda>w.
        case (LIKERT_PREFIX_RE v, LIKERT_PREFIX_RE w) of
          (Some m, Some m') \<Rightarrow>
            int_of_digits (fst m) \<noteq> int_of_digits (fst m') \<or> strip (snd m) = strip (snd m')
        | _ \<Rightarrow> True) values) values"

definition no_nan :: "pystr list \<Rightarrow> bool" where
  "no_nan values = (NaN \<notin> set (List.map_filter py_float values))"

subsection \<open>Headers\<close>

definition is_upper :: "nat \<Rightarrow> bool" where
  "is_upper c = (65 \<le> c \<and> c \<le> 90)"

definition is_lower :: "nat \<Rightarrow> bool" where
  "is_lower c = (97 \<le> c \<and> c \<le> 122)"

text \<open>
  \<open>QID_RE.match(header)\<close>, the pattern \<^verbatim>\<open>^([A-Z]\d+[a-z]?)\.\s*(.+)\<close> with DOTALL:
  the two groups of the match, or \<open>None\<close>.  The second group runs to the end of the
  header; when only whitespace follows the point it is the last character of that
  whitespace.
\<close>

definition QID_RE :: "pystr \<Rightarrow> (pystr \<times> pystr) option" where
  "QID_RE header =
    (case header of
       [] \<Rightarrow> None
     | c # r \<Rightarrow>
        (let ds = takeWhile is_digit r; r1 = dropWhile is_digit r;
             lw = (case r1 of [] \<Rightarrow> [] | x # xs \<Rightarrow> if is_lower x then [x] else []);
             r2 = drop (length lw) r1
         in if \<not> is_upper c \<or> ds = [] then None
            else (case r2 of
               [] \<Rightarrow> None
             | d # r3 \<Rightarrow>
                 if d \<noteq> 46 then None
                 else if dropWhile is_space r3 \<noteq> [] then Some (c # ds @ lw, dropWhile is_space r3)
                 else if r3 = [] then None
                 else Some (c # ds @ lw, [last r3]))))"

text \<open>
  The pattern of line 131, \<^verbatim>\<open>^(.+?[.?!:;])\s+([A-Z...].{5,})$\<close> with DOTALL, on a
  stripped text: the first position \<open>k \<ge> 1\<close> that holds one of the five punctuation
  marks, is followed by whitespace and then by a capital of the class (the ASCII capitals
  and eight Polish ones) with at least five more characters.
\<close>

definition is_sub_start :: "nat \<Rightarrow> bool" where
  "is_sub_start c = (is_upper c \<or> c \<in> {377, 379, 346, 262, 321, 211, 260, 280})"

definition split_ok :: "pystr \<Rightarrow> nat \<Rightarrow> bool" where
  "split_ok rest k =
    (let t = drop (Suc k) rest; u = dropWhile is_space t in
     rest ! k \<in> {46, 63, 33, 58, 59} \<and> t \<noteq> [] \<and> is_space (hd t) \<and> u \<noteq> []
     \<and> is_sub_start (hd u) \<and> 5 \<le> length (tl u))"

definition split_re :: "pystr \<Rightarrow> (pystr \<times> pystr) option" where
  "split_re rest =
    (case find (split_ok rest) [1..<length rest] of
       None \<Rightarrow> None
     | Some k \<Rightarrow> Some (take (Suc k) rest, dropWhile is_space (drop (Suc k) rest)))"

text \<open>
  \<open>_split_qid_header\<close>: the identifier, the parent text and the first sub-item, each
  \<open>None\<close> where the source returns \<open>None\<close>.
\<close>

definition split_qid_header :: "pystr \<Rightarrow> pystr option \<times> pystr option \<times> pystr option" where
  "split_qid_header header =
    (case QID_RE header of
       None \<Rightarrow> (None, None, Some header)
     | Some (qid, g2) \<Rightarrow>
        (let rest = strip g2 in
         case split_re rest of
           Some (g1, g2') \<Rightarrow>
             (let parent = qid @ S ''. '' @ strip g1; sub = strip g2' in
              if real (length sub) < real (length rest) * 0.85
              then (Some qid, Some parent, Some sub)
              else (Some qid, Some (qid @ S ''. '' @ rest), None))
         | None \<Rightarrow> (Some qid, Some (qid @ S ''. '' @ rest), None)))"

definition is_meta :: "pystr \<Rightarrow> bool" where
  "is_meta col_name = list_ex (\<lambda>kw. contains kw (lower col_name)) META_KEYWORDS"

definition should_exclude :: "pystr \<Rightarrow> bool" where
  "should_exclude col_name = list_ex (\<lambda>kw. contains kw (lower col_name)) EXCLUDE_KEYWORDS"

definition infer_chart_type :: "pystr \<Rightarrow> nat \<Rightarrow> pystr" where
  "infer_chart_type qtype n_categories =
    (if qtype = QT_NUMERIC_SCALE \<or> qtype = QT_LIKERT then CT_HBAR_MEANS
     else if qtype = QT_MULTI_CHOICE then CT_MULTI_BAR
     else if qtype = QT_SINGLE_CHOICE then (if n_categories \<le> 3 then CT_PIE else CT_FREQ_BAR)
     else CT_FREQ_BAR)"

text \<open>The truth value of an optional string: \<open>None\<close> and the empty string are false.\<close>

definition truthy :: "pystr option \<Rightarrow> bool" where
  "truthy x = (case x of None \<Rightarrow> False | Some s \<Rightarrow> s \<noteq> [])"

subsection \<open>Question groups\<close>

text \<open>The dataclass; its field \<open>id\<close> is \<open>ident\<close> here.\<close>

record QuestionDef =
  ident :: pystr
  label :: pystr
  columns :: "nat list"
  column_labels :: "pystr list"
  question_type :: pystr
  chart_type :: pystr
  scale_min :: "int option"
  scale_max :: "int option"
  scale_labels :: "int \<rightharpoonup> pystr"
  special_values :: "int set"
  is_demographic :: bool

text \<open>
  A data frame is the list of its columns, each the header (its \<open>str\<close>) and the cells.
\<close>

type_synonym dataframe = "(pystr \<times> column) list"

text \<open>\<open>str(i)\<close> of a natural number.\<close>

fun str_nat :: "nat \<Rightarrow> pystr" where
  "str_nat n = (if n < 10 then [48 + n] else str_nat (n div 10) @ [48 + n mod 10])"

declare str_nat.simps [simp del]

text \<open>
  The keys \<open>scale_min\<close>, \<open>scale_max\<close>, \<open>scale_labels\<close> and
  \<open>special_numeric\<close> of a signature, as \<open>ct.get\<close> reads them: an \<open>int\<close> in a
  likert signature, a \<open>float\<close> in a numeric one.
\<close>

datatype pynum = PyInt int | PyFloat pyfloat

fun get_scale_min :: "col_type \<Rightarrow> pynum option" where
  "get_scale_min (Likert lo hi labels special) = Some (PyInt lo)"
| "get_scale_min (NumericScale lo hi) = Some (PyFloat lo)"
| "get_scale_min ct = None"

fun get_scale_max :: "col_type \<Rightarrow> pynum option" where
  "get_scale_max (Likert lo hi labels special) = Some (PyInt hi)"
| "get_scale_max (NumericScale lo hi) = Some (PyFloat hi)"
| "get_scale_max ct = None"

fun get_scale_labels :: "col_type \<Rightarrow> (int \<rightharpoonup> pystr)" where
  "get_scale_labels (Likert lo hi labels special) = labels"
| "get_scale_labels ct = Map.empty"

fun get_special_numeric :: "col_type \<Rightarrow> int set" where
  "get_special_numeric (Likert lo hi labels special) = special"
| "get_special_numeric ct = {}"

text \<open>
  Comparison of two numbers, \<open>min(a, b)\<close> and \<open>max(a, b)\<close> (the first argument
  unless the second is smaller, or greater), and \<open>int(x)\<close>, which truncates a finite
  float and raises on an infinity (OverflowError) and on NaN (ValueError).
\<close>

fun to_float :: "pynum \<Rightarrow> pyfloat" where
  "to_float (PyInt i) = Fin (of_int i)"
| "to_float (PyFloat x) = x"

definition py_min2 :: "pynum \<Rightarrow> pynum \<Rightarrow> pynum" where
  "py_min2 a b = (if float_lt (to_float b) (to_float a) then b else a)"

definition py_max2 :: "pynum \<Rightarrow> pynum \<Rightarrow> pynum" where
  "py_max2 a b = (if float_lt (to_float a) (to_float b) then b else a)"

fun py_int :: "pynum \<Rightarrow> py_error + int" where
  "py_int (PyInt i) = Inr i"
| "py_int (PyFloat (Fin x)) = Inr (if 0 \<le> x then \<lfloor>x\<rfloor> else \<lceil>x\<rceil>)"
| "py_int (PyFloat PInf) = Inl OverflowError"
| "py_int (PyFloat NInf) = Inl OverflowError"
| "py_int (PyFloat NaN) = Inl ValueError"

text \<open>Lines 203 to 232: the inner loop, from position \<open>j\<close>, with what it updates.\<close>

function extend_group ::
  "pystr list \<Rightarrow> col_type list \<Rightarrow> pystr \<Rightarrow> nat \<Rightarrow> nat list \<Rightarrow> pystr list \<Rightarrow> nat set
   \<Rightarrow> pystr set \<Rightarrow> nat \<times> nat list \<times> pystr list \<times> nat set \<times> pystr set" where
  "extend_group col_names col_types ctype j group_cols group_labels processed seen_headers =
    (if j < length col_names then
       (let jcol = col_names ! j;
            jcol_norm = lower (strip jcol);
            jqid = fst (split_qid_header jcol);
            jtype = type_of (col_types ! j)
        in if truthy jqid then (j, group_cols, group_labels, processed, seen_headers)
           else if is_meta jcol \<or> should_exclude jcol then
             extend_group col_names col_types ctype (j + 1) group_cols group_labels
               (insert j processed) seen_headers
           else if jcol_norm \<in> seen_headers then
             extend_group col_names col_types ctype (j + 1) group_cols group_labels
               (insert j processed) seen_headers
           else if jtype \<noteq> ctype \<and> jtype \<noteq> S ''empty'' then
             (j, group_cols, group_labels, processed, seen_headers)
           else if jtype = S ''empty'' then
             extend_group col_names col_types ctype (j + 1) group_cols group_labels
               (insert j processed) seen_headers
           else
             extend_group col_names col_types ctype (j + 1) (group_cols @ [j])
               (group_labels @ [jcol]) processed (insert jcol_norm seen_headers))
     else (j, group_cols, group_labels, processed, seen_headers))"
  by pat_completeness auto
termination
  by (relation "measure (\<lambda>(cn, ct, ty, j, gc, gl, pr, sh). length cn - j)") auto

declare extend_group.simps [simp del]

text \<open>Lines 235 to 246: the scale information of the members, merged.\<close>

definition merge_opt :: "(pynum \<Rightarrow> pynum \<Rightarrow> pynum) \<Rightarrow> pynum option \<Rightarrow> pynum option \<Rightarrow> pynum option" where
  "merge_opt f acc s =
    (case s of None \<Rightarrow> acc | Some v \<Rightarrow> (case acc of None \<Rightarrow> Some v | Some a \<Rightarrow> Some (f a v)))"

definition merge_scale ::
  "col_type list \<Rightarrow> nat list \<Rightarrow> pynum option \<times> pynum option \<times> (int \<rightharpoonup> pystr) \<times> int set" where
  "merge_scale col_types group_cols =
    foldl (\<lambda>(smin, smax, all_labels, special) ci.
        (let ct = col_types ! ci in
         (merge_opt py_min2 smin (get_scale_min ct), merge_opt py_max2 smax (get_scale_max ct),
          all_labels ++ get_scale_labels ct, special \<union> get_special_numeric ct)))
      (None, None, Map.empty, {}) group_cols"

definition int_opt :: "pynum option \<Rightarrow> py_error + int option" where
  "int_opt x = (case x of None \<Rightarrow> Inr None
                | Some v \<Rightarrow> (case py_int v of Inl e \<Rightarrow> Inl e | Inr i \<Rightarrow> Inr (Some i)))"

text \<open>
  The state of the scan: the position \<open>i\<close>, the sets \<open>processed\<close> and
  \<open>seen_headers\<close>, and the questions found so far.
\<close>

record automaton =
  pos :: nat
  processed :: "nat set"
  seen_headers :: "pystr set"
  questions :: "QuestionDef list"

text \<open>
  Lines 198 to 264: the column at \<open>i\<close> opens a group of likert, numeric or
  multiple-choice columns, the inner loop gathers the sub-items, and the question is
  appended; \<open>int\<close> of a merged bound may raise.
\<close>

definition open_group ::
  "pystr list \<Rightarrow> col_type list \<Rightarrow> automaton \<Rightarrow> pystr set \<Rightarrow> pystr option \<Rightarrow> pystr option
   \<Rightarrow> pystr option \<Rightarrow> bool \<Rightarrow> pystr \<Rightarrow> py_error + automaton" where
  "open_group col_names col_types st seen qid parent_text first_sub is_demo ctype =
    (let i = pos st; col_str = col_names ! i in
     case extend_group col_names col_types ctype (i + 1) [i]
            [if truthy first_sub then the first_sub else col_str] (processed st) seen of
       (j, group_cols, group_labels, processed', seen') \<Rightarrow>
         (case merge_scale col_types group_cols of
            (smin, smax, all_labels, special) \<Rightarrow>
              (case int_opt smin of
                 Inl e \<Rightarrow> Inl e
               | Inr smin' \<Rightarrow>
                  (case int_opt smax of
                     Inl e \<Rightarrow> Inl e
                   | Inr smax' \<Rightarrow>
                      Inr (st\<lparr>questions := questions st @
                             [\<lparr>ident = (if truthy qid then the qid else S ''group_'' @ str_nat i),
                               label = (if truthy parent_text then the parent_text else col_str),
                               columns = group_cols,
                               column_labels = group_labels,
                               question_type = ctype,
                               chart_type = infer_chart_type ctype 0,
                               scale_min = smin',
                               scale_max = smax',
                               scale_labels = all_labels,
                               special_values = special,
                               is_demographic = is_demo\<rparr>],
                           seen_headers := seen',
                           processed := processed' \<union> set group_cols,
                           pos := j\<rparr>)))))"

text \<open>Lines 267 to 281: a single-choice column is a question of its own.\<close>

definition single_choice ::
  "pystr list \<Rightarrow> col_type list \<Rightarrow> automaton \<Rightarrow> pystr set \<Rightarrow> pystr option \<Rightarrow> pystr option
   \<Rightarrow> bool \<Rightarrow> automaton" where
  "single_choice col_names col_types st seen qid parent_text is_demo =
    (let i = pos st; col_str = col_names ! i;
         n_cat = (case col_types ! i of SingleChoice cats n \<Rightarrow> n | _ \<Rightarrow> 0)
     in st\<lparr>questions := questions st @
             [\<lparr>ident = (if truthy qid then the qid else S ''choice_'' @ str_nat i),
               label = (if truthy parent_text then the parent_text else col_str),
               columns = [i],
               column_labels = [col_str],
               question_type = QT_SINGLE_CHOICE,
               chart_type = infer_chart_type QT_SINGLE_CHOICE n_cat,
               scale_min = None,
               scale_max = None,
               scale_labels = Map.empty,
               special_values = {},
               is_demographic = is_demo\<rparr>],
           seen_headers := seen,
           processed := insert i (processed st),
           pos := i + 1\<rparr>)"

text \<open>Lines 173 to 284: one pass through the body of the outer loop, at position \<open>i < n_cols\<close>.\<close>

definition step :: "pystr list \<Rightarrow> col_type list \<Rightarrow> automaton \<Rightarrow> py_error + automaton" where
  "step col_names col_types st =
    (let i = pos st;
         col_str = col_names ! i;
         col_norm = lower (strip col_str);
         seen = insert col_norm (seen_headers st);
         qid = fst (split_qid_header col_str);
         parent_text = fst (snd (split_qid_header col_str));
         first_sub = snd (snd (split_qid_header col_str));
         is_demo = (if truthy qid then the qid \<in> DEMOGRAPHIC_QIDS else False);
         ctype = type_of (col_types ! i)
     in if i \<in> processed st then Inr (st\<lparr>pos := i + 1\<rparr>)
        else if type_of (col_types ! i) = S ''empty'' \<or> is_meta col_str \<or> should_exclude col_str
                \<or> col_norm \<in> seen_headers st
        then Inr (st\<lparr>processed := insert i (processed st), pos := i + 1\<rparr>)
        else if truthy qid \<and> the qid \<in> EXCLUDE_QIDS
        then Inr (st\<lparr>seen_headers := seen, processed := insert i (processed st), pos := i + 1\<rparr>)
        else if ctype = QT_LIKERT \<or> ctype = QT_NUMERIC_SCALE \<or> ctype = QT_MULTI_CHOICE
        then open_group col_names col_types st seen qid parent_text first_sub is_demo ctype
        else if ctype = QT_SINGLE_CHOICE
        then Inr (single_choice col_names col_types st seen qid parent_text is_demo)
        else Inr (st\<lparr>seen_headers := seen, processed := insert i (processed st), pos := i + 1\<rparr>))"

text \<open>
  Every pass moves the position forward: the inner loop never returns a position before
  the one it started from.  The outer loop terminates on that ground.
\<close>

lemma extend_group_pos:
  "j \<le> fst (extend_group col_names col_types ctype j group_cols group_labels pr seen)"
proof (induction col_names col_types ctype j group_cols group_labels pr seen
    rule: extend_group.induct)
  case (1 col_names col_types ctype j group_cols group_labels pr seen)
  note IH = "1.IH" [OF _ refl refl refl refl]
  show ?case
  proof (cases "j < length col_names")
    case False
    then show ?thesis by (subst extend_group.simps) simp
  next
    case True
    show ?thesis
      by (subst extend_group.simps) (use True IH in \<open>auto simp: Let_def intro: Suc_leD\<close>)
  qed
qed

lemma extend_group_pos_eq:
  "extend_group col_names col_types ctype j group_cols group_labels pr seen = (j', r) \<Longrightarrow> j \<le> j'"
  using extend_group_pos [of j col_names col_types ctype group_cols group_labels pr seen] by simp

lemma open_group_pos:
  assumes "open_group col_names col_types st seen qid parent_text first_sub is_demo ctype = Inr st'"
  shows "pos st < pos st'"
  using assms unfolding open_group_def Let_def
  by (auto split: prod.splits sum.splits dest!: extend_group_pos_eq)

lemma step_pos:
  assumes "step col_names col_types st = Inr st'"
  shows "pos st < pos st'"
  using assms unfolding step_def Let_def
  by (auto simp: single_choice_def Let_def split: if_splits dest: open_group_pos)

function detect_loop ::
  "pystr list \<Rightarrow> col_type list \<Rightarrow> automaton \<Rightarrow> py_error + QuestionDef list" where
  "detect_loop col_names col_types st =
    (if pos st < length col_names then
       (case step col_names col_types st of
          Inl e \<Rightarrow> Inl e
        | Inr st' \<Rightarrow> detect_loop col_names col_types st')
     else Inr (questions st))"
  by pat_completeness auto
termination
proof (relation "measure (\<lambda>(cn, ct, st). length cn - pos st)")
  show "wf (measure (\<lambda>(cn, ct, st). length cn - pos st))" by simp
next
  fix col_names :: "pystr list" and col_types st st'
  assume "pos st < length col_names" and "step col_names col_types st = Inr st'"
  then show "((col_names, col_types, st'), (col_names, col_types, st))
             \<in> measure (\<lambda>(cn, ct, st). length cn - pos st)"
    using step_pos [of col_names col_types st st'] by simp
qed

declare detect_loop.simps [simp del]

definition auto_detect_questions :: "dataframe \<Rightarrow> py_error + QuestionDef list" where
  "auto_detect_questions df =
     detect_loop (map fst df) (map (\<lambda>c. detect_column_type (snd c)) df)
       \<lparr>pos = 0, processed = {}, seen_headers = {}, questions = []\<rparr>"

text \<open>
  The reasons for which the scan passes over a column, as predicates of the column
  position: the signature is empty or the header holds a metadata or an exclusion
  keyword; the normalised header is the one of an earlier column that was not passed
  over for those reasons; the identifier of the header is an excluded one.  A column is
  \<open>grouped\<close> when none of them holds and its signature is one of the four kinds
  that open a group.
\<close>

definition skipped_plain :: "pystr list \<Rightarrow> col_type list \<Rightarrow> nat \<Rightarrow> bool" where
  "skipped_plain col_names col_types k =
    (type_of (col_types ! k) = S ''empty'' \<or> is_meta (col_names ! k)
     \<or> should_exclude (col_names ! k))"

definition duplicate_header :: "pystr list \<Rightarrow> col_type list \<Rightarrow> nat \<Rightarrow> bool" where
  "duplicate_header col_names col_types i =
    list_ex (\<lambda>k. lower (strip (col_names ! k)) = lower (strip (col_names ! i))
                \<and> \<not> skipped_plain col_names col_types k) [0..<i]"

definition excluded_qid :: "pystr \<Rightarrow> bool" where
  "excluded_qid header =
    (truthy (fst (split_qid_header header)) \<and> the (fst (split_qid_header header)) \<in> EXCLUDE_QIDS)"

definition grouped :: "pystr list \<Rightarrow> col_type list \<Rightarrow> nat \<Rightarrow> bool" where
  "grouped col_names col_types i =
    (\<not> skipped_plain col_names col_types i \<and> \<not> duplicate_header col_names col_types i
     \<and> \<not> excluded_qid (col_names ! i)
     \<and> type_of (col_types ! i) \<in> {QT_LIKERT, QT_NUMERIC_SCALE, QT_MULTI_CHOICE, QT_SINGLE_CHOICE})"

text \<open>The bounds of a numeric signature are finite numbers.\<close>

fun finite_bounds :: "col_type \<Rightarrow> bool" where
  "finite_bounds (NumericScale (Fin lo) (Fin hi)) = True"
| "finite_bounds (NumericScale lo hi) = False"
| "finite_bounds ct = True"

text \<open>
  What the scan has seen and grouped before a position: the normalised headers of the
  columns before \<open>i\<close> that were not passed over as empty, metadata or excluded, and
  the columns that are members of a question.
\<close>

definition seenset :: "pystr list \<Rightarrow> col_type list \<Rightarrow> nat \<Rightarrow> pystr set" where
  "seenset col_names col_types i =
    (\<lambda>k. lower (strip (col_names ! k))) ` {k. k < i \<and> \<not> skipped_plain col_names col_types k}"

definition members :: "QuestionDef list \<Rightarrow> nat set" where
  "members qs = set (concat (map columns qs))"

definition scan_inv :: "pystr list \<Rightarrow> col_type list \<Rightarrow> automaton \<Rightarrow> bool" where
  "scan_inv col_names col_types st =
    (pos st \<le> length col_names \<and> processed st \<subseteq> {k. k < pos st}
     \<and> seen_headers st = seenset col_names col_types (pos st)
     \<and> distinct (concat (map columns (questions st)))
     \<and> members (questions st) = {k. k < pos st \<and> grouped col_names col_types k})"

subsection \<open>Parsed data of a question\<close>

text \<open>\<open>str(x)\<close> of a cell: a missing cell is the float NaN.\<close>

definition py_str :: "pystr option \<Rightarrow> pystr" where
  "py_str x = (case x of None \<Rightarrow> S ''nan'' | Some s \<Rightarrow> s)"

definition parse_likert_value :: "pystr option \<Rightarrow> pyfloat option" where
  "parse_likert_value val =
    (let s = strip (py_str val) in
     if s = [] then None
     else (case LIKERT_PREFIX_RE s of
        Some m \<Rightarrow> py_float (fst m)
      | None \<Rightarrow> if lower s \<in> SPECIAL_VALUES then None else py_float s))"

definition parse_numeric_value :: "pystr option \<Rightarrow> pyfloat option" where
  "parse_numeric_value val =
    (let s = strip (py_str val) in
     if lower s \<in> SPECIAL_VALUES then None else py_float s)"

text \<open>
  A cell of the parsed frame: a float or \<open>None\<close> (likert and numeric questions), the
  integer 0 or 1 (multiple choice), or the cell as it was.
\<close>

datatype pcell = Number "pyfloat option" | Flag int | Raw "pystr option"

text \<open>Lines 323 to 333: one column of the question, parsed after the type of the question.\<close>

definition parse_column :: "QuestionDef \<Rightarrow> column \<Rightarrow> pcell list" where
  "parse_column question series =
    (if question_type question = QT_LIKERT then
       map (\<lambda>val. Number
             (let x = parse_likert_value val in
              if special_values question \<noteq> {}
              then (case x of
                      Some (Fin r) \<Rightarrow>
                        if list_ex (\<lambda>n. of_int n = r) (sorted_list_of_set (special_values question))
                        then None else x
                    | _ \<Rightarrow> x)
              else x)) series
     else if question_type question = QT_NUMERIC_SCALE then
       map (\<lambda>val. Number (parse_numeric_value val)) series
     else if question_type question = QT_MULTI_CHOICE then
       map (\<lambda>x. Flag (if strip (py_str x) = S ''MENTIONED'' then 1 else 0)) series
     else map Raw series)"

text \<open>
  The dict \<open>result\<close> is an association list in insertion order; assigning to a key it
  already holds replaces the value in place.  \<open>df.columns[col_idx]\<close> raises IndexError
  beyond the last column; the headers of a frame read from a sheet are distinct, so
  \<open>df[col_name]\<close> is the column at \<open>col_idx\<close>.
\<close>

fun dict_set :: "'k \<Rightarrow> 'v \<Rightarrow> ('k \<times> 'v) list \<Rightarrow> ('k \<times> 'v) list" where
  "dict_set k v [] = [(k, v)]"
| "dict_set k v (p # ps) = (if fst p = k then (k, v) # ps else p # dict_set k v ps)"

fun parse_columns ::
  "dataframe \<Rightarrow> QuestionDef \<Rightarrow> (nat \<times> pystr) list \<Rightarrow> (pystr \<times> pcell list) list
   \<Rightarrow> py_error + (pystr \<times> pcell list) list" where
  "parse_columns df question [] result = Inr result"
| "parse_columns df question ((col_idx, lbl) # rest) result =
    (if col_idx < length df
     then parse_columns df question rest
            (dict_set lbl (parse_column question (snd (df ! col_idx))) result)
     else Inl IndexError)"

text \<open>
  \<open>get_numeric_data\<close>; \<open>weight\<close> is the weight column after
  \<open>pd.to_numeric(df[weight_col], errors='coerce')\<close> when \<open>weight_col\<close> is given and
  is a header of the frame, and \<open>None\<close> otherwise.
\<close>

definition get_numeric_data ::
  "dataframe \<Rightarrow> QuestionDef \<Rightarrow> series option \<Rightarrow> py_error + (pystr \<times> pcell list) list" where
  "get_numeric_data df question weight =
    (case parse_columns df question (zip (columns question) (column_labels question)) [] of
       Inl e \<Rightarrow> Inl e
     | Inr result_df \<Rightarrow>
        (case weight of
           None \<Rightarrow> Inr result_df
         | Some w \<Rightarrow>
             Inr (dict_set (S ''_weight'') (map (\<lambda>x. Number (Some (Fin x))) (fillna 1 w)) result_df)))"

subsection \<open>Multiple-choice tables\<close>

text \<open>\<open>len(data)\<close>, the number of rows of a frame, and \<open>series == 1\<close> for one cell.\<close>

definition n_rows :: "(pystr \<times> 'a list) list \<Rightarrow> nat" where
  "n_rows data = (case data of [] \<Rightarrow> 0 | c # cs \<Rightarrow> length (snd c))"

fun is_one :: "pcell \<Rightarrow> bool" where
  "is_one (Flag n) = (n = 1)"
| "is_one (Number (Some (Fin r))) = (r = 1)"
| "is_one c = False"

text \<open>
  The rows of the result: Opcja, N and the percentage.  The sort keeps rows of equal
  percentage in their order here, which pandas leaves to the sorting algorithm; sorting
  a frame without rows by a column it does not have raises KeyError.
\<close>

definition multiple_choice_table ::
  "(pystr \<times> pcell list) list \<Rightarrow> series option \<Rightarrow> py_error + (pystr \<times> nat \<times> real) list" where
  "multiple_choice_table data weights =
    (let n_total = n_rows data;
         rows = map (\<lambda>(col, series).
                  (let n_mentioned = length (filter is_one series);
                       pct = (case weights of
                                Some ws \<Rightarrow>
                                  (let mentioned_w = sum_list (fillna 0 (map snd
                                         (filter (\<lambda>cw. is_one (fst cw)) (zip series ws))));
                                       total_w = sum_list (fillna 0 ws)
                                   in if total_w > 0 then mentioned_w / total_w * 100 else 0)
                              | None \<Rightarrow>
                                  if n_total > 0 then real n_mentioned / real n_total * 100 else 0)
                   in (col, n_mentioned, round_to 1 pct)))
                (filter (\<lambda>c. \<not> (fst c \<noteq> [] \<and> hd (fst c) = 95)) data)
     in if rows = [] then Inl KeyError
        else Inr (sort_key (\<lambda>r. - snd (snd r)) rows))"

subsection \<open>Loading a question config\<close>

text \<open>
  The value \<open>yaml.safe_load\<close> returns: null, a boolean, a number, a string, a
  sequence, or a mapping, here the list of its items in document order (the keys of a
  loaded mapping are distinct).  Reading and parsing the file are outside the model:
  \<open>load_config\<close> starts from the loaded value.
\<close>

datatype yaml =
    YNull
  | YBool bool
  | YInt int
  | YFloat real
  | YStr pystr
  | YList "yaml list"
  | YDict "(yaml \<times> yaml) list"

text \<open>\<open>not config\<close> is the negation of the truth value of the object.\<close>

fun truth :: "yaml \<Rightarrow> bool" where
  "truth YNull = False"
| "truth (YBool b) = b"
| "truth (YInt n) = (n \<noteq> 0)"
| "truth (YFloat r) = (r \<noteq> 0)"
| "truth (YStr s) = (s \<noteq> [])"
| "truth (YList xs) = (xs \<noteq> [])"
| "truth (YDict kvs) = (kvs \<noteq> [])"

text \<open>
  \<open>key in obj\<close>, \<open>obj[key]\<close> and \<open>obj.get(key, default)\<close> for a string key, and the
  iteration \<open>for x in obj\<close>, each with the TypeError of the objects that do not
  support it.  \<open>get\<close> is only called on mappings.
\<close>

fun has_key :: "pystr \<Rightarrow> yaml \<Rightarrow> py_error + bool" where
  "has_key k (YDict kvs) = Inr (YStr k \<in> set (map fst kvs))"
| "has_key k (YList xs) = Inr (YStr k \<in> set xs)"
| "has_key k (YStr s) = Inr (contains k s)"
| "has_key k obj = Inl TypeError"

fun getitem :: "yaml \<Rightarrow> pystr \<Rightarrow> py_error + yaml" where
  "getitem (YDict kvs) k = (case map_of kvs (YStr k) of None \<Rightarrow> Inl KeyError | Some v \<Rightarrow> Inr v)"
| "getitem obj k = Inl TypeError"

fun get :: "yaml \<Rightarrow> pystr \<Rightarrow> yaml \<Rightarrow> yaml" where
  "get (YDict kvs) k d = (case map_of kvs (YStr k) of None \<Rightarrow> d | Some v \<Rightarrow> v)"
| "get obj k d = d"

fun iterate :: "yaml \<Rightarrow> py_error + yaml list" where
  "iterate (YList xs) = Inr xs"
| "iterate (YDict kvs) = Inr (map fst kvs)"
| "iterate (YStr s) = Inr (map (\<lambda>c. YStr [c]) s)"
| "iterate obj = Inl TypeError"

text \<open>
  The dataclass checks no types, so a \<open>QuestionDef\<close> built from a config holds the
  loaded values as they are; the fields carry the prefix \<open>y_\<close> here.  \<open>set(...)\<close>
  raises TypeError on an object that cannot be iterated and on an element that cannot
  be hashed (a sequence or a mapping).
\<close>

record QuestionDef_loaded =
  y_id :: yaml
  y_label :: yaml
  y_columns :: yaml
  y_column_labels :: yaml
  y_question_type :: yaml
  y_chart_type :: yaml
  y_scale_min :: yaml
  y_scale_max :: yaml
  y_scale_labels :: yaml
  y_special_values :: "yaml set"
  y_is_demographic :: yaml

fun hashable :: "yaml \<Rightarrow> bool" where
  "hashable (YList xs) = False"
| "hashable (YDict kvs) = False"
| "hashable obj = True"

definition py_set :: "yaml \<Rightarrow> py_error + yaml set" where
  "py_set obj =
    (case iterate obj of
       Inl e \<Rightarrow> Inl e
     | Inr xs \<Rightarrow> if list_all hashable xs then Inr (set xs) else Inl TypeError)"

text \<open>
  The constructor call of lines 375 to 383; its arguments are evaluated from left to
  right, so the first failing one decides the error.
\<close>

definition load_question :: "yaml \<Rightarrow> py_error + QuestionDef_loaded" where
  "load_question qd =
    (case getitem qd (S ''id'') of Inl e \<Rightarrow> Inl e | Inr v_id \<Rightarrow>
     case getitem qd (S ''label'') of Inl e \<Rightarrow> Inl e | Inr v_label \<Rightarrow>
     case getitem qd (S ''columns'') of Inl e \<Rightarrow> Inl e | Inr v_columns \<Rightarrow>
     case getitem qd (S ''question_type'') of Inl e \<Rightarrow> Inl e | Inr v_qtype \<Rightarrow>
     case getitem qd (S ''chart_type'') of Inl e \<Rightarrow> Inl e | Inr v_ctype \<Rightarrow>
     case py_set (get qd (S ''special_values'') (YList [])) of Inl e \<Rightarrow> Inl e | Inr v_special \<Rightarrow>
       Inr \<lparr>y_id = v_id, y_label = v_label, y_columns = v_columns,
            y_column_labels = get qd (S ''column_labels'') (YList []),
            y_question_type = v_qtype, y_chart_type = v_ctype,
            y_scale_min = get qd (S ''scale_min'') YNull,
            y_scale_max = get qd (S ''scale_max'') YNull,
            y_scale_labels = get qd (S ''scale_labels'') (YDict []),
            y_special_values = v_special,
            y_is_demographic = get qd (S ''is_demographic'') (YBool False)\<rparr>)"

fun load_questions :: "yaml list \<Rightarrow> py_error + QuestionDef_loaded list" where
  "load_questions [] = Inr []"
| "load_questions (qd # rest) =
    (case load_question qd of
       Inl e \<Rightarrow> Inl e
     | Inr q \<Rightarrow>
        (case load_questions rest of Inl e \<Rightarrow> Inl e | Inr qs \<Rightarrow> Inr (q # qs)))"

text \<open>
  \<open>load_config\<close> on the loaded value; \<open>str\<close> is Python's \<open>str\<close> on loaded values,
  and the list \<open>questions\<close> is \<open>qs\<close>.
\<close>

definition load_config ::
  "(yaml \<Rightarrow> pystr) \<Rightarrow> yaml \<Rightarrow> py_error + (QuestionDef_loaded list \<times> pystr list option)" where
  "load_config str config =
    (if \<not> truth config then Inl ValueError
     else case has_key (S ''questions'') config of
       Inl e \<Rightarrow> Inl e
     | Inr False \<Rightarrow> Inl ValueError
     | Inr True \<Rightarrow>
        (case getitem config (S ''questions'') of
           Inl e \<Rightarrow> Inl e
         | Inr section \<Rightarrow>
            (case iterate section of
               Inl e \<Rightarrow> Inl e
             | Inr qds \<Rightarrow>
                (case load_questions qds of
                   Inl e \<Rightarrow> Inl e
                 | Inr qs \<Rightarrow>
                    (let categorical_ids = get config (S ''categorical_questions'') YNull in
                     if categorical_ids = YNull then Inr (qs, None)
                     else (case iterate categorical_ids of
                             Inl e \<Rightarrow> Inl e
                           | Inr xs \<Rightarrow> Inr (qs, Some (map (\<lambda>x. strip (str x)) xs))))))))"

section \<open>Properties\<close>

text \<open>
  C3.  With two non-missing values whose weights sum to zero, \<open>weighted_mean\<close> and
  \<open>weighted_std\<close> do not return the undefined-result marker: \<open>np.average\<close>
  raises ZeroDivisionError and neither function catches it.
\<close>

theorem weighted_mean_zero_weights_raises:
  "weighted_mean [Some 1, Some 2] (Some [Some 0, Some 0]) = Inl ZeroDivisionError
   \<and> weighted_std [Some 1, Some 2] (Some [Some 0, Some 0]) = Inl ZeroDivisionError"
  by (simp add: weighted_mean_def weighted_std_def dropna_def loc_def fillna_def np_average_def)

subsection \<open>Uniform weights\<close>

lemma dropna_from_fst: "list_all (\<lambda>i. i < k + length s) (map fst (dropna_from k s))"
  by (induction k s rule: dropna_from.induct) (auto simp: list_all_iff)

lemma dropna_fst: "list_all (\<lambda>i. i < length s) (map fst (dropna s))"
  using dropna_from_fst [of 0 s] by (simp add: dropna_def)

lemma loc_replicate:
  assumes "list_all (\<lambda>i. i < n) idx"
  shows "loc (replicate n x) idx = Inr (replicate (length idx) x)"
proof -
  have "map (nth (replicate n x)) idx = replicate (length idx) x"
    using assms by (induction idx) simp_all
  with assms show ?thesis by (simp add: loc_def)
qed

lemma fillna_replicate: "fillna d (replicate n (Some c)) = replicate n c"
  by (simp add: fillna_def)

lemma sum_list_replicate_real: "sum_list (replicate n (c::real)) = real n * c"
  by (induction n) (simp_all add: algebra_simps)

lemma sum_list_map2_replicate:
  "sum_list (map2 (*) a (replicate (length a) (c::real))) = c * sum_list a"
  by (induction a) (simp_all add: algebra_simps)

lemma np_average_uniform:
  assumes "a \<noteq> []" "c \<noteq> 0"
  shows "np_average a (replicate (length a) c) = Inr (mean a)"
  using assms by (simp add: np_average_def sum_list_replicate_real sum_list_map2_replicate mean_def)

lemma map_fst_sort_key: "map fst (sort_key fst ps) = sort (map fst ps)"
proof (induction ps)
  case Nil show ?case by simp
next
  case (Cons p ps)
  have ins: "map fst (insort_key fst p qs) = insort (fst p) (map fst qs)" for qs
    by (induction qs) simp_all
  show ?case using Cons by (simp add: ins)
qed

lemma argsort_values: "map (nth xs) (argsort xs) = sort xs"
proof -
  let ?ps = "sort_key fst (zip xs [0..<length xs])"
  have "\<forall>p \<in> set ?ps. xs ! snd p = fst p"
    by (auto simp: set_zip)
  then have "map (nth xs) (map snd ?ps) = map fst ?ps"
    by simp
  also have "\<dots> = sort (map fst (zip xs [0..<length xs]))"
    by (rule map_fst_sort_key)
  also have "\<dots> = sort xs" by simp
  finally show ?thesis by (simp add: argsort_def)
qed

lemma argsort_bound: "list_all (\<lambda>i. i < length xs) (argsort xs)"
proof -
  have "set (argsort xs) = snd ` set (zip xs [0..<length xs])"
    by (simp add: argsort_def)
  also have "\<dots> \<subseteq> {0..<length xs}" by (auto simp: set_zip)
  finally show ?thesis by (auto simp: list_all_iff)
qed

lemma length_argsort: "length (argsort xs) = length xs"
  by (simp add: argsort_def)

lemma map_nth_replicate:
  "list_all (\<lambda>i. i < n) idx \<Longrightarrow> map (nth (replicate n x)) idx = replicate (length idx) x"
  by (induction idx) simp_all

lemma cumsum_from_replicate:
  "cumsum_from a (replicate n c) = map (\<lambda>k. a + real (Suc k) * c) [0..<n]"
proof (induction n arbitrary: a)
  case 0 show ?case by simp
next
  case (Suc n)
  have "map (\<lambda>k. a + real (Suc k) * c) [0..<Suc n]
        = (a + c) # map (\<lambda>k. a + real (Suc k) * c) (map Suc [0..<n])"
    by (simp only: upt_conv_Cons [of 0 "Suc n"] map_Suc_upt) simp
  also have "\<dots> = (a + c) # map (\<lambda>k. (a + c) + real (Suc k) * c) [0..<n]"
    by (simp add: algebra_simps)
  finally show ?case using Suc [of "a + c"] by simp
qed

lemma first_crossing:
  assumes "length s = n" "0 < n" "0 < c"
  shows "filter (\<lambda>(v, x). x \<ge> last (cumsum (replicate n c)) / 2) (zip s (cumsum (replicate n c)))
         = map (\<lambda>k. (s ! k, real (Suc k) * c)) [(n - 1) div 2..<n]"
proof -
  have cs: "cumsum (replicate n c) = map (\<lambda>k. real (Suc k) * c) [0..<n]"
    by (simp add: cumsum_def cumsum_from_replicate)
  have lst: "last (map (\<lambda>k. real (Suc k) * c) [0..<n]) = real n * c"
    using assms(2) by (simp add: last_map last_upt del: upt_Suc)
  have z: "zip s (map (\<lambda>k. real (Suc k) * c) [0..<n]) = map (\<lambda>k. (s ! k, real (Suc k) * c)) [0..<n]"
    using assms(1) by (intro nth_equalityI) simp_all
  have cond: "(real (Suc k) * c \<ge> real n * c / 2) = ((n - 1) div 2 \<le> k)" for k
  proof -
    have "(real (Suc k) * c \<ge> real n * c / 2) = (real n * c \<le> (2 * real (Suc k)) * c)"
      by (simp add: field_simps)
    also have "\<dots> = (real n \<le> 2 * real (Suc k))"
      using assms(3) by (rule mult_le_cancel_right_pos)
    also have "\<dots> = (n \<le> 2 * Suc k)"
      by (metis of_nat_le_iff of_nat_mult of_nat_numeral)
    also have "\<dots> = ((n - 1) div 2 \<le> k)" by presburger
    finally show ?thesis .
  qed
  have f: "filter (\<lambda>k. (n - 1) div 2 \<le> k) [0..<n] = [(n - 1) div 2..<n]"
  proof -
    have "[0..<n] = [0..<(n - 1) div 2] @ [(n - 1) div 2..<n]"
      by (metis le_add2 le_add_same_cancel2 less_imp_diff_less div_le_dividend upt_add_eq_append
          le_add_diff_inverse le_trans diff_le_self)
    moreover have "filter (\<lambda>k. (n - 1) div 2 \<le> k) [0..<(n - 1) div 2] = []"
      by (simp add: filter_empty_conv)
    moreover have "filter (\<lambda>k. (n - 1) div 2 \<le> k) [(n - 1) div 2..<n] = [(n - 1) div 2..<n]"
      by (simp add: filter_id_conv)
    ultimately show ?thesis by (metis filter_append append_Nil)
  qed
  have "filter (\<lambda>(v, x). x \<ge> real n * c / 2) (map (\<lambda>k. (s ! k, real (Suc k) * c)) [0..<n])
        = map (\<lambda>k. (s ! k, real (Suc k) * c)) (filter (\<lambda>k. real n * c / 2 \<le> real (Suc k) * c) [0..<n])"
    by (simp only: filter_map o_def split_conv)
  also have "\<dots> = map (\<lambda>k. (s ! k, real (Suc k) * c)) [(n - 1) div 2..<n]"
    by (simp only: cond f)
  finally show ?thesis
    by (simp only: cs lst z)
qed


lemma loc_uniform:
  "loc (replicate (length values) (Some c)) (map fst (dropna values))
   = Inr (replicate (length (dropna values)) (Some c))"
  using loc_replicate [OF dropna_fst, of "values" "Some c"] by simp

lemma weighted_mean_uniform:
  assumes "dropna values \<noteq> []"
  shows "weighted_mean values (Some (replicate (length values) (Some 1))) = weighted_mean values None"
proof -
  let ?vs = "map snd (dropna values)"
  have "np_average ?vs (replicate (length ?vs) 1) = Inr (mean ?vs)"
    using assms by (intro np_average_uniform) simp_all
  then show ?thesis
    using assms(1) by (simp add: weighted_mean_def loc_uniform fillna_replicate Let_def)
qed

lemma weighted_median_uniform:
  assumes "dropna values \<noteq> []"
  shows "weighted_median values (Some (replicate (length values) (Some 1)))
         = Inr (Some (sort (map snd (dropna values)) ! ((length (dropna values) - 1) div 2)))"
proof -
  let ?vs = "map snd (dropna values)"
  let ?n = "length (dropna values)"
  let ?c = "1 :: real"
  have n: "0 < ?n" using assms(1) by simp
  have w: "map (nth (replicate ?n ?c)) (argsort ?vs) = replicate ?n ?c"
    using map_nth_replicate [OF argsort_bound [of ?vs], of ?c] by (simp add: length_argsort)
  have fc: "filter (\<lambda>(v, x). x \<ge> last (cumsum (replicate ?n ?c)) / 2)
               (zip (sort ?vs) (cumsum (replicate ?n ?c)))
            = map (\<lambda>k. (sort ?vs ! k, real (Suc k) * ?c)) [(?n - 1) div 2..<?n]"
    using n by (intro first_crossing) simp_all
  have "(?n - 1) div 2 < ?n" using n by presburger
  then have hd: "[(?n - 1) div 2..<?n] = (?n - 1) div 2 # [Suc ((?n - 1) div 2)..<?n]"
    by (rule upt_conv_Cons)
  have fc': "filter (\<lambda>(v, x). x \<ge> last (cumsum (replicate ?n ?c)) / 2)
               (zip (sort ?vs) (cumsum (replicate ?n ?c)))
            = (sort ?vs ! ((?n - 1) div 2), real (Suc ((?n - 1) div 2)) * ?c)
              # map (\<lambda>k. (sort ?vs ! k, real (Suc k) * ?c)) [Suc ((?n - 1) div 2)..<?n]"
    by (subst fc, subst hd) simp
  show ?thesis
    using assms(1)
    by (simp add: weighted_median_def loc_uniform fillna_replicate Let_def argsort_values w fc'
        del: upt_Suc)
qed

lemma weighted_std_uniform:
  assumes "2 \<le> length (dropna values)"
  shows "weighted_std values (Some (replicate (length values) (Some 1)))
         = Inr (Some (sqrt (sum_list (map (\<lambda>x. (x - mean (map snd (dropna values)))\<^sup>2)
                                        (map snd (dropna values)))
                            / real (length (dropna values)))))"
proof -
  let ?vs = "map snd (dropna values)"
  let ?n = "length (dropna values)"
  have ne: "?vs \<noteq> []" using assms(1) by auto
  have a: "np_average ?vs (replicate ?n 1) = Inr (mean ?vs)"
    using np_average_uniform [OF ne, of 1] by simp
  have b: "np_average (map (\<lambda>x. (x - mean ?vs)\<^sup>2) ?vs) (replicate ?n 1)
           = Inr (mean (map (\<lambda>x. (x - mean ?vs)\<^sup>2) ?vs))"
    using np_average_uniform [of "map (\<lambda>x. (x - mean ?vs)\<^sup>2) ?vs" 1] ne by simp
  have "\<not> ?n \<le> 1" using assms(1) by simp
  then show ?thesis
    by (simp add: weighted_std_def Let_def loc_uniform fillna_replicate a b del: map_map)
       (simp add: mean_def)
qed

lemma population_vs_sample:
  assumes "2 \<le> n" "0 \<le> a"
  shows "sqrt (a / real n) = sqrt (real (n - 1) / real n) * sqrt (a / real (n - 1))"
proof -
  have "a / real n = (real (n - 1) / real n) * (a / real (n - 1))"
    using assms(1) by (simp add: field_simps)
  then show ?thesis by (simp only: real_sqrt_mult)
qed

text \<open>
  C2.  Let every weight be 1.0, over fewer than \<open>2 ^ 53\<close> rows (the cumulative
  weights are then exact in binary64 as well) and at least one non-missing value.  The
  weighted mean equals the unweighted mean; the weighted median is the lower median (the
  value at position \<open>(n - 1) div 2\<close> of the sorted values), which the unweighted
  median equals when \<open>n\<close> is odd; and with at least two values the weighted standard
  deviation is the population one, \<open>sqrt ((n - 1) / n)\<close> times the sample standard
  deviation that the unweighted path returns.
\<close>

theorem uniform_weights:
  assumes "ws = replicate (length values) (Some 1)"
    and "length values < 2 ^ 53"
    and "vs = map snd (dropna values)" and "vs \<noteq> []"
  shows "weighted_mean values (Some ws) = weighted_mean values None
       \<and> weighted_median values (Some ws) = Inr (Some (sort vs ! ((length vs - 1) div 2)))
       \<and> (odd (length vs) \<longrightarrow> weighted_median values (Some ws) = weighted_median values None)
       \<and> (2 \<le> length vs \<longrightarrow>
            weighted_std values None = Inr (Some (pd_std vs))
          \<and> weighted_std values (Some ws)
            = Inr (Some (sqrt (real (length vs - 1) / real (length vs)) * pd_std vs)))"
proof -
  have ne: "dropna values \<noteq> []" using assms(3,4) by auto
  have len: "length vs = length (dropna values)" using assms(3) by simp
  have m1: "weighted_mean values (Some ws) = weighted_mean values None"
    using weighted_mean_uniform [OF ne] assms(1) by simp
  have m2: "weighted_median values (Some ws) = Inr (Some (sort vs ! ((length vs - 1) div 2)))"
    using weighted_median_uniform [OF ne] assms(1,3) by simp
  have m3: "weighted_median values (Some ws) = weighted_median values None" if "odd (length vs)"
  proof -
    have "(length vs - 1) div 2 = length vs div 2" using that by presburger
    then show ?thesis
      using that ne by (simp add: m2) (simp add: weighted_median_def pd_median_def Let_def assms(3))
  qed
  have m4: "weighted_std values None = Inr (Some (pd_std vs))" if "2 \<le> length vs"
    using that by (simp add: weighted_std_def Let_def assms(3))
  have m5: "weighted_std values (Some ws)
            = Inr (Some (sqrt (real (length vs - 1) / real (length vs)) * pd_std vs))"
    if "2 \<le> length vs"
  proof -
    have "0 \<le> sum_list (map (\<lambda>x. (x - mean vs)\<^sup>2) vs)"
      by (rule sum_list_nonneg) auto
    from population_vs_sample [OF that this] show ?thesis
      using weighted_std_uniform [of "values"] that assms(1)
      by (simp add: len [symmetric] assms(3) [symmetric] pd_std_def)
  qed
  show ?thesis using m1 m2 m3 m4 m5 by blast
qed

text \<open>The theorem at two concrete columns, one with a missing value, with weight 1 everywhere.\<close>

theorem uniform_weights_witness:
  "weighted_mean [Some 1, None, Some 4, Some 2, Some 3] (Some [Some 1, Some 1, Some 1, Some 1, Some 1])
     = Inr (Some (5 / 2))
 \<and> weighted_median [Some 1, None, Some 4, Some 2, Some 3] (Some [Some 1, Some 1, Some 1, Some 1, Some 1])
     = Inr (Some 2)
 \<and> weighted_median [Some 1, None, Some 4, Some 2] (Some [Some 1, Some 1, Some 1, Some 1])
     = weighted_median [Some 1, None, Some 4, Some 2] None
 \<and> weighted_std [Some 1, None, Some 4, Some 2, Some 3] (Some [Some 1, Some 1, Some 1, Some 1, Some 1])
     = Inr (Some (sqrt (3 / 4) * pd_std [1, 4, 2, 3]))"
proof -
  have w5: "[Some 1, Some 1, Some 1, Some 1, Some 1]
            = replicate (length [Some 1, None, Some 4, Some 2, Some 3 :: real option]) (Some (1::real))"
    by (simp add: numeral_eq_Suc)
  have w4: "[Some 1, Some 1, Some 1, Some 1]
            = replicate (length [Some 1, None, Some 4, Some 2 :: real option]) (Some (1::real))"
    by (simp add: numeral_eq_Suc)
  have d5: "[1, 4, 2, 3] = map snd (dropna [Some 1, None, Some 4, Some 2, Some 3 :: real option])"
    by (simp add: dropna_def)
  have d4: "[1, 4, 2] = map snd (dropna [Some 1, None, Some 4, Some 2 :: real option])"
    by (simp add: dropna_def)
  have b5: "length [Some 1, None, Some 4, Some 2, Some 3 :: real option] < 2 ^ 53" by simp
  have b4: "length [Some 1, None, Some 4, Some 2 :: real option] < 2 ^ 53" by simp
  have u: "weighted_mean [Some 1, None, Some 4, Some 2, Some 3] None = Inr (Some (5 / 2))"
    by (simp add: weighted_mean_def dropna_def mean_def)
  have s5: "sort [1, 4, 2, 3 :: real] ! ((length [1, 4, 2, 3 :: real] - 1) div 2) = 2"
    by simp
  have a: "weighted_mean [Some 1, None, Some 4, Some 2, Some 3]
             (Some [Some 1, Some 1, Some 1, Some 1, Some 1]) = Inr (Some (5 / 2))
         \<and> weighted_median [Some 1, None, Some 4, Some 2, Some 3]
             (Some [Some 1, Some 1, Some 1, Some 1, Some 1]) = Inr (Some 2)
         \<and> weighted_std [Some 1, None, Some 4, Some 2, Some 3]
             (Some [Some 1, Some 1, Some 1, Some 1, Some 1])
             = Inr (Some (sqrt (3 / 4) * pd_std [1, 4, 2, 3]))"
    using uniform_weights [OF w5 b5 d5] u s5 by simp
  have b: "weighted_median [Some 1, None, Some 4, Some 2] (Some [Some 1, Some 1, Some 1, Some 1])
           = weighted_median [Some 1, None, Some 4, Some 2] None"
    using uniform_weights [OF w4 b4 d4]
    by (simp add: weighted_median_def pd_median_def dropna_def)
  show ?thesis using a b by simp
qed

text \<open>
  With an even number of values the weighted median (2) is not the unweighted one (5/2),
  and the weighted standard deviation is not the unweighted one.
\<close>

theorem uniform_weights_counterexample:
  "weighted_median [Some 1, Some 2, Some 3, Some 4] (Some [Some 1, Some 1, Some 1, Some 1])
     \<noteq> weighted_median [Some 1, Some 2, Some 3, Some 4] None
 \<and> weighted_std [Some 1, Some 2, Some 3, Some 4] (Some [Some 1, Some 1, Some 1, Some 1])
     \<noteq> weighted_std [Some 1, Some 2, Some 3, Some 4] None"
  by (simp add: weighted_median_def weighted_std_def pd_median_def pd_std_def mean_def dropna_def
      loc_def fillna_def argsort_def cumsum_def np_average_def upt_conv_Cons power2_eq_square)

subsection \<open>Frequency tables\<close>

lemma S_simps: "S [] = []" "S (c # cs) = of_char c # S cs"
  by (simp_all add: S_def)

text \<open>
  C4.  For the column \<open>b, a\<close> the unweighted table lists the categories in first-seen
  order (\<open>b\<close>, then \<open>a\<close>), but with the weight vector \<open>1, 1\<close> and
  \<open>sort_by_count\<close> unset the table lists them in sorted order (\<open>a\<close>, then
  \<open>b\<close>): the weighted path goes through \<open>groupby\<close>, which sorts its keys.
\<close>

theorem frequency_table_weighted_order:
  "frequency_table [Some (S ''b''), Some (S ''a'')] None False
     = Inr [(S ''b'', 1, 50), (S ''a'', 1, 50)]
 \<and> frequency_table [Some (S ''b''), Some (S ''a'')] (Some [Some 1, Some 1]) False
     = Inr [(S ''a'', 1, 50), (S ''b'', 1, 50)]"
  by (simp add: frequency_table_def dropna_def strip_def is_space_def S_simps loc_def fillna_def
      groupby_sum_def value_counts_def unique_def round_to_def round_half_even_def)

subsection \<open>Column sums of the cross-tabulation\<close>

lemma round_half_even_close: "\<bar>of_int (round_half_even x) - x\<bar> \<le> 1 / 2"
  unfolding round_half_even_def Let_def by (auto simp: abs_if; linarith)

lemma round_to_close: "\<bar>round_to 1 x - x\<bar> \<le> 1 / 20"
proof -
  have "\<bar>of_int (round_half_even (x * 10)) - x * 10\<bar> \<le> 1 / 2"
    by (rule round_half_even_close)
  then show ?thesis
    by (simp add: round_to_def abs_if field_simps split: if_splits)
qed

lemma round_to_zero: "round_to d 0 = 0"
  by (simp add: round_to_def round_half_even_def)

text \<open>The cells of one column after normalisation, against the exact shares.\<close>

lemma sum_list_abs_diff:
  "length xs = length ys \<Longrightarrow> \<forall>i < length xs. \<bar>xs ! i - ys ! i\<bar> \<le> (e::real)
   \<Longrightarrow> \<bar>sum_list xs - sum_list ys\<bar> \<le> real (length xs) * e"
proof (induction xs ys rule: list_induct2)
  case Nil show ?case by simp
next
  case (Cons x xs y ys)
  have "\<bar>x - y\<bar> \<le> e" using Cons.prems by force
  moreover have "\<bar>sum_list xs - sum_list ys\<bar> \<le> real (length xs) * e"
    using Cons.prems by (intro Cons.IH) force
  ultimately show ?case by (simp add: algebra_simps)
qed

lemma sum_scaled: "(\<Sum>v\<leftarrow>xs. v / t * 100) = sum_list xs / (t::real) * 100"
  by (induction xs) (simp_all add: add_divide_distrib distrib_right)

lemma pct_column_zero:
  assumes "sum_list (fillna 0 cells) = 0"
  shows "sum_list (pct_column cells) = 0"
proof -
  have "pct_column cells = map (\<lambda>x. 0) cells"
    using assms by (simp add: pct_column_def split: option.splits)
  then show ?thesis by simp
qed

lemma pct_column_nonzero:
  assumes "sum_list (fillna 0 cells) \<noteq> 0"
  shows "\<bar>sum_list (pct_column cells) - 100\<bar> \<le> real (length cells) / 20"
proof -
  let ?t = "sum_list (fillna 0 cells)"
  let ?exact = "map (\<lambda>v. v / ?t * 100) (fillna 0 cells)"
  have p: "pct_column cells = map (\<lambda>x. case x of Some v \<Rightarrow> round_to 1 (v / ?t * 100) | None \<Rightarrow> 0) cells"
    using assms by (auto simp: pct_column_def Let_def split: option.splits)
  have "sum_list ?exact = ?t / ?t * 100" by (rule sum_scaled)
  then have ex: "sum_list ?exact = 100" using assms by simp
  have "\<bar>sum_list (pct_column cells) - sum_list ?exact\<bar> \<le> real (length (pct_column cells)) * (1 / 20)"
  proof (rule sum_list_abs_diff)
    show "length (pct_column cells) = length ?exact" by (simp add: p fillna_def)
    show "\<forall>i<length (pct_column cells). \<bar>pct_column cells ! i - ?exact ! i\<bar> \<le> 1 / 20"
    proof (intro allI impI)
      fix i assume "i < length (pct_column cells)"
      then have i: "i < length cells" by (simp add: p)
      show "\<bar>pct_column cells ! i - ?exact ! i\<bar> \<le> 1 / 20"
      proof (cases "cells ! i")
        case None
        then show ?thesis using i by (simp add: p fillna_def)
      next
        case (Some v)
        then show ?thesis using i round_to_close [of "v / ?t * 100"] by (simp add: p fillna_def)
      qed
    qed
  qed
  then have "\<bar>sum_list (pct_column cells) - 100\<bar> \<le> real (length (pct_column cells)) * (1 / 20)"
    by (simp only: ex)
  moreover have "length (pct_column cells) = length cells" by (simp add: p)
  ultimately show ?thesis by simp
qed

text \<open>Summing the rows of one column gives back the weight of the whole category.\<close>

lemma sum_partition:
  assumes "finite K" "f ` set xs \<subseteq> K"
  shows "(\<Sum>k\<in>K. sum_list (map g (filter (\<lambda>t. f t = k) xs))) = (sum_list (map g xs) :: real)"
  using assms(2)
proof (induction xs)
  case Nil show ?case by simp
next
  case (Cons x xs)
  have "(\<Sum>k\<in>K. sum_list (map g (filter (\<lambda>t. f t = k) (x # xs))))
        = (\<Sum>k\<in>K. (if k = f x then g x else 0) + sum_list (map g (filter (\<lambda>t. f t = k) xs)))"
    by (intro sum.cong) auto
  also have "\<dots> = (\<Sum>k\<in>K. if k = f x then g x else 0)
                   + (\<Sum>k\<in>K. sum_list (map g (filter (\<lambda>t. f t = k) xs)))"
    by (simp add: sum.distrib)
  also have "(\<Sum>k\<in>K. if k = f x then g x else 0) = g x"
    using assms(1) Cons.prems by (simp add: sum.delta)
  finally show ?case using Cons by simp
qed


lemma filter_conj_eq:
  "filter (\<lambda>t. fst t = r \<and> fst (snd t) = c) obs
   = filter (\<lambda>t. fst t = r) (filter (\<lambda>t. fst (snd t) = c) obs)"
  by (induction obs) auto

lemma column_sum_count:
  "sum_list (fillna 0 (map (\<lambda>r. Some (real (length (cell_rows obs r c))))
              (sort (remdups (map fst obs)))))
   = real (length (filter (\<lambda>t. fst (snd t) = c) obs))"
proof -
  let ?obs = "filter (\<lambda>t. fst (snd t) = c) obs"
  let ?rows = "sort (remdups (map fst obs))"
  have "sum_list (fillna 0 (map (\<lambda>r. Some (real (length (cell_rows obs r c)))) ?rows))
        = (\<Sum>r\<leftarrow>?rows. sum_list (map (\<lambda>t. 1) (filter (\<lambda>t. fst t = r) ?obs)))"
    by (simp add: fillna_def cell_rows_def filter_conj_eq o_def sum_list_triv)
  also have "\<dots> = (\<Sum>r\<in>set ?rows. sum_list (map (\<lambda>t. 1) (filter (\<lambda>t. fst t = r) ?obs)))"
    by (rule sum_list_distinct_conv_sum_set) simp
  also have "\<dots> = sum_list (map (\<lambda>t. 1) ?obs)"
    by (rule sum_partition) auto
  finally show ?thesis by (simp add: sum_list_triv)
qed

lemma fillna_map: "fillna d (map f xs) = map (\<lambda>x. case f x of None \<Rightarrow> d | Some v \<Rightarrow> v) xs"
  by (simp add: fillna_def)

lemma column_sum_weights:
  "sum_list (fillna 0 (map (\<lambda>r. let ws = cell_rows obs r c in
                              if ws = [] then None else Some (sum_list (fillna 0 ws)))
              (sort (remdups (map fst obs)))))
   = sum_list (fillna (0::real) (map (\<lambda>t. snd (snd t)) (filter (\<lambda>t. fst (snd t) = c) obs)))"
proof -
  let ?obs = "filter (\<lambda>t. fst (snd t) = c) obs"
  let ?rows = "sort (remdups (map fst obs))"
  let ?g = "\<lambda>t. case snd (snd t) of None \<Rightarrow> 0 | Some v \<Rightarrow> v"
  have cell: "(case (let ws = cell_rows obs r c in
                 if ws = [] then None else Some (sum_list (fillna 0 ws))) of
               None \<Rightarrow> 0 | Some v \<Rightarrow> v)
              = sum_list (map ?g (filter (\<lambda>t. fst t = r) ?obs))" for r
    by (simp add: Let_def cell_rows_def fillna_def filter_conj_eq o_def)
  have "sum_list (fillna 0 (map (\<lambda>r. let ws = cell_rows obs r c in
                              if ws = [] then None else Some (sum_list (fillna 0 ws))) ?rows))
        = (\<Sum>r\<leftarrow>?rows. sum_list (map ?g (filter (\<lambda>t. fst t = r) ?obs)))"
    by (simp only: fillna_map cell)
  also have "\<dots> = (\<Sum>r\<in>set ?rows. sum_list (map ?g (filter (\<lambda>t. fst t = r) ?obs)))"
    by (rule sum_list_distinct_conv_sum_set) simp
  also have "\<dots> = sum_list (map ?g ?obs)"
    by (rule sum_partition) auto
  finally show ?thesis by (simp add: fillna_def o_def)
qed

text \<open>
  C7.  Every column of the percentage matrix has one cell per row category; it sums to
  exactly 0 when its breakdown category has zero total weight, and otherwise to a value
  within 0.05 times the number of rows of 100 (each cell is rounded to one decimal).
\<close>

theorem cross_tab_frequencies_column_sums:
  assumes "cross_tab_frequencies data_col group_col weights = Inr (rows, cols)"
    and "(c, pcts) \<in> set cols"
  shows "length pcts = length rows
       \<and> (category_weight data_col group_col weights c = 0 \<longrightarrow> sum_list pcts = 0)
       \<and> (category_weight data_col group_col weights c \<noteq> 0 \<longrightarrow>
            \<bar>sum_list pcts - 100\<bar> \<le> real (length rows) / 20)"
proof -
  obtain cells where pc: "pcts = pct_column cells" and len: "length cells = length rows"
    and tot: "sum_list (fillna 0 cells) = category_weight data_col group_col weights c"
  proof (cases weights)
    case None
    let ?obs = "valid_rows data_col group_col
                  (replicate (max (length data_col) (length group_col)) ())"
    from assms None have r: "rows = sort (remdups (map fst ?obs))"
      and cs: "cols = map (\<lambda>c. (c, pct_column (map (\<lambda>r. Some (real (length (cell_rows ?obs r c)))) rows)))
                  (sort (remdups (map (\<lambda>t. fst (snd t)) ?obs)))"
      by (auto simp: cross_tab_frequencies_def crosstab_count_def Let_def o_def split: if_splits)
    from assms(2) cs have "pcts = pct_column (map (\<lambda>r. Some (real (length (cell_rows ?obs r c)))) rows)"
      by auto
    moreover have "sum_list (fillna 0 (map (\<lambda>r. Some (real (length (cell_rows ?obs r c)))) rows))
                   = category_weight data_col group_col weights c"
      unfolding r using column_sum_count [of ?obs c] by (simp add: category_weight_def Let_def None)
    ultimately show ?thesis using that by simp
  next
    case (Some ws)
    let ?obs = "valid_rows data_col group_col
                  (align_weights (max (length data_col) (length group_col)) ws)"
    let ?cell = "\<lambda>c r. let ws = cell_rows ?obs r c in
                        if ws = [] then None else Some (sum_list (fillna 0 ws))"
    from assms Some have r: "rows = sort (remdups (map fst ?obs))"
      and cs: "cols = map (\<lambda>c. (c, pct_column (map (?cell c) rows)))
                  (sort (remdups (map (\<lambda>t. fst (snd t)) ?obs)))"
      by (auto simp: cross_tab_frequencies_def crosstab_sum_def Let_def o_def split: if_splits)
    from assms(2) cs have "pcts = pct_column (map (?cell c) rows)"
      by auto
    moreover have "sum_list (fillna 0 (map (?cell c) rows))
                   = category_weight data_col group_col weights c"
      unfolding r using column_sum_weights [of ?obs c] by (simp add: category_weight_def Let_def Some)
    ultimately show ?thesis using that by simp
  qed
  have "length pcts = length rows" using pc len by (simp add: pct_column_def Let_def)
  moreover have "sum_list pcts = 0" if "category_weight data_col group_col weights c = 0"
    using pct_column_zero [of cells] that tot pc by simp
  moreover have "\<bar>sum_list pcts - 100\<bar> \<le> real (length rows) / 20"
    if "category_weight data_col group_col weights c \<noteq> 0"
    using pct_column_nonzero [of cells] that tot pc len by simp
  ultimately show ?thesis by blast
qed

text \<open>
  Three data categories of one respondent each in one breakdown category: every cell is
  33.3 and the column sums to 99.9, neither 100.0 nor 0.0.
\<close>

theorem cross_tab_frequencies_column_sums_counterexample:
  "cross_tab_frequencies [Some (S ''a''), Some (S ''b''), Some (S ''c'')]
      [Some (S ''g''), Some (S ''g''), Some (S ''g'')] None
   = Inr ([S ''a'', S ''b'', S ''c''], [(S ''g'', [333 / 10, 333 / 10, 333 / 10])])
   \<and> sum_list [333 / 10, 333 / 10, 333 / 10] \<noteq> (100 :: real)
   \<and> sum_list [333 / 10, 333 / 10, 333 / 10] \<noteq> (0 :: real)"
  by (simp add: cross_tab_frequencies_def valid_rows_def crosstab_count_def cell_rows_def
      pct_column_def S_simps fillna_def round_to_def round_half_even_def)

text \<open>The theorem at that table, and at a breakdown category whose weights are all 0.\<close>

theorem cross_tab_frequencies_column_sums_witness:
  "\<bar>sum_list [333 / 10, 333 / 10, 333 / 10] - (100 :: real)\<bar> \<le> real (length [S ''a'', S ''b'', S ''c'']) / 20
 \<and> sum_list [0, 0 :: real] = 0"
proof -
  have r1: "cross_tab_frequencies [Some (S ''a''), Some (S ''b''), Some (S ''c'')]
      [Some (S ''g''), Some (S ''g''), Some (S ''g'')] None
   = Inr ([S ''a'', S ''b'', S ''c''], [(S ''g'', [333 / 10, 333 / 10, 333 / 10])])"
    by (simp add: cross_tab_frequencies_def valid_rows_def crosstab_count_def cell_rows_def
        pct_column_def S_simps fillna_def round_to_def round_half_even_def)
  have m1: "(S ''g'', [333 / 10, 333 / 10, 333 / 10 :: real])
            \<in> set [(S ''g'', [333 / 10, 333 / 10, 333 / 10])]"
    by simp
  have w1: "category_weight [Some (S ''a''), Some (S ''b''), Some (S ''c'')]
      [Some (S ''g''), Some (S ''g''), Some (S ''g'')] None (S ''g'') = 3"
    by (simp add: category_weight_def valid_rows_def S_simps)
  have r2: "cross_tab_frequencies [Some (S ''a''), Some (S ''b'')]
      [Some (S ''g''), Some (S ''g'')] (Some [Some 0, Some 0])
   = Inr ([S ''a'', S ''b''], [(S ''g'', [0, 0])])"
    by (simp add: cross_tab_frequencies_def valid_rows_def crosstab_sum_def cell_rows_def
        pct_column_def S_simps fillna_def align_weights_def)
  have m2: "(S ''g'', [0, 0 :: real]) \<in> set [(S ''g'', [0, 0])]"
    by simp
  have w2: "category_weight [Some (S ''a''), Some (S ''b'')]
      [Some (S ''g''), Some (S ''g'')] (Some [Some 0, Some 0]) (S ''g'') = 0"
    by (simp add: category_weight_def valid_rows_def S_simps fillna_def align_weights_def)
  show ?thesis
    using cross_tab_frequencies_column_sums [OF r1 m1] cross_tab_frequencies_column_sums [OF r2 m2]
      w1 w2
    by simp
qed

subsection \<open>Choice of the significance test\<close>



subsection \<open>Column signatures\<close>

lemma foldl_upd_functional:
  assumes "\<forall>p \<in> set ps. g (key p) = val p"
  shows "foldl (\<lambda>m p. m(key p \<mapsto> val p)) m0 ps
         = (\<lambda>k. if k \<in> key ` set ps then Some (g k) else m0 k)"
  using assms
proof (induction ps arbitrary: m0)
  case Nil show ?case by simp
next
  case (Cons p ps)
  from Cons.prems have "\<forall>p \<in> set ps. g (key p) = val p" by simp
  from Cons.IH [OF this]
  have "foldl (\<lambda>m p. m(key p \<mapsto> val p)) (m0(key p \<mapsto> val p)) ps
        = (\<lambda>k. if k \<in> key ` set ps then Some (g k) else (m0(key p \<mapsto> val p)) k)" .
  then have "foldl (\<lambda>m p. m(key p \<mapsto> val p)) m0 (p # ps)
        = (\<lambda>k. if k \<in> key ` set ps then Some (g k) else (m0(key p \<mapsto> val p)) k)"
    by (simp only: foldl_Cons)
  also have "\<dots> = (\<lambda>k. if k \<in> key ` set (p # ps) then Some (g k) else m0 k)"
    using Cons.prems by (auto simp: fun_eq_iff)
  finally show ?case .
qed

lemma set_map_filter: "set (List.map_filter f xs) = {y. \<exists>x \<in> set xs. f x = Some y}"
  by (induction xs) (auto simp: List.map_filter_def)

lemma map_snd_dropna_from: "map snd (dropna_from i s) = List.map_filter id s"
  by (induction i s rule: dropna_from.induct) (simp_all add: List.map_filter_def)

lemma map_snd_dropna: "map snd (dropna s) = List.map_filter id s"
  by (simp add: dropna_def map_snd_dropna_from)

lemma stripped_values_alt:
  "stripped_values series = filter (\<lambda>v. v \<noteq> []) (map strip (List.map_filter id series))"
  by (simp add: stripped_values_def map_snd_dropna [symmetric] o_def)

lemma re1: "LIKERT_PREFIX_RE (S ''1: Tak'') = Some (S ''1'', S ''Tak'')"
  and re2: "LIKERT_PREFIX_RE (S ''2: Nie'') = Some (S ''2'', S ''Nie'')"
  and re6: "LIKERT_PREFIX_RE (S ''6: Nie wiem'') = Some (S ''6'', S ''Nie wiem'')"
  by (simp_all add: LIKERT_PREFIX_RE_def S_simps is_digit_def is_space_def)

lemma st: "strip (S ''1: Tak'') = S ''1: Tak''" "strip (S ''2: Nie'') = S ''2: Nie''"
  "strip (S ''6: Nie wiem'') = S ''6: Nie wiem''"
  "strip (S ''Tak'') = S ''Tak''" "strip (S ''Nie'') = S ''Nie''"
  "strip (S ''Nie wiem'') = S ''Nie wiem''"
  by (simp_all add: strip_def S_simps is_space_def)

lemma sent: "\<not> is_sentinel_label (lower (S ''Tak''))" "\<not> is_sentinel_label (lower (S ''Nie''))"
  "is_sentinel_label (lower (S ''Nie wiem''))"
  by (simp_all add: is_sentinel_label_def lower_def lower_cp_def S_simps)

lemma detect_only_sentinel:
  "detect_column_type [Some (S ''6: Nie wiem'')] = Likert 6 6 [6 \<mapsto> S ''Nie wiem''] {6}"
proof -
  have v: "stripped_values [Some (S ''6: Nie wiem'')] = [S ''6: Nie wiem'']"
    by (simp add: stripped_values_def dropna_def st) (simp add: S_simps)
  have l: "likert_labels_of [S ''6: Nie wiem''] = [6 \<mapsto> S ''Nie wiem'']"
    by (simp add: likert_labels_of_def List.map_filter_def re6 st) (simp add: int_of_digits_def S_simps)
  have n: "likert_nums [S ''6: Nie wiem''] = [6]"
    by (simp add: likert_nums_def List.map_filter_def re6) (simp add: int_of_digits_def S_simps)
  have nm: "\<not> set [S ''6: Nie wiem''] \<subseteq> {S ''MENTIONED'', S ''NOT MENTIONED''}"
    by (simp add: S_simps)
  show ?thesis
    unfolding detect_column_type_def Let_def v l n using nm by (simp add: re6 sent)
qed

text \<open>
  C8.  A column whose non-missing values, stripped, are exactly the strings
  \<open>1: Tak\<close>, \<open>2: Nie\<close> and \<open>6: Nie wiem\<close>, in any order and any number of
  repetitions, is a likert column with the sentinel code 6, the bounds 1 and 2 taken over
  the other codes.  When every code is a sentinel the bounds are taken over all codes.
\<close>

theorem detect_column_type_tak_nie:
  assumes "set (stripped_values series) = {S ''1: Tak'', S ''2: Nie'', S ''6: Nie wiem''}"
  shows "detect_column_type series
           = Likert 1 2 [1 \<mapsto> S ''Tak'', 2 \<mapsto> S ''Nie'', 6 \<mapsto> S ''Nie wiem''] {6}
       \<and> detect_column_type [Some (S ''6: Nie wiem'')] = Likert 6 6 [6 \<mapsto> S ''Nie wiem''] {6}"
proof -
  let ?vs = "stripped_values series"
  let ?T = "{S ''1: Tak'', S ''2: Nie'', S ''6: Nie wiem''}"
  let ?g = "\<lambda>k::int. if k = 1 then S ''Tak'' else if k = 2 then S ''Nie'' else S ''Nie wiem''"
  have ne: "?vs \<noteq> []" using assms by auto
  have nm: "\<not> set ?vs \<subseteq> {S ''MENTIONED'', S ''NOT MENTIONED''}"
    unfolding assms by (simp add: S_simps)
  have all: "filter (\<lambda>v. LIKERT_PREFIX_RE v \<noteq> None) ?vs = ?vs"
    using assms by (auto simp: filter_id_conv re1 re2 re6)
  have cnt: "real (length ?vs) * 0.4 < real (length ?vs)"
    using ne by simp
  have ms: "set (List.map_filter LIKERT_PREFIX_RE ?vs)
            = {(S ''1'', S ''Tak''), (S ''2'', S ''Nie''), (S ''6'', S ''Nie wiem'')}"
    unfolding set_map_filter assms by (auto simp: re1 re2 re6)
  have nums: "set (likert_nums ?vs) = {1, 2, 6}"
    unfolding likert_nums_def set_map ms by (simp add: int_of_digits_def S_simps)
  have "likert_labels_of ?vs
        = (\<lambda>k. if k \<in> (\<lambda>m. int_of_digits (fst m)) ` set (List.map_filter LIKERT_PREFIX_RE ?vs)
                then Some (?g k) else Map.empty k)"
    unfolding likert_labels_of_def
    by (rule foldl_upd_functional) (auto simp: ms int_of_digits_def S_simps strip_def is_space_def)
  then have labels: "likert_labels_of ?vs = [1 \<mapsto> S ''Tak'', 2 \<mapsto> S ''Nie'', 6 \<mapsto> S ''Nie wiem'']"
    unfolding ms by (auto simp: fun_eq_iff int_of_digits_def S_simps)
  have srt: "sorted_list_of_set {1, 2, 6 :: int} = [1, 2, 6]"
    by simp
  have "detect_column_type series
        = Likert 1 2 [1 \<mapsto> S ''Tak'', 2 \<mapsto> S ''Nie'', 6 \<mapsto> S ''Nie wiem''] {6}"
    unfolding detect_column_type_def Let_def all nums labels srt
    using ne nm cnt by (simp add: sent)
  then show ?thesis using detect_only_sentinel by simp
qed

text \<open>The theorem at a column of six rows, one of them missing.\<close>

theorem detect_column_type_tak_nie_witness:
  "detect_column_type
     [Some (S ''1: Tak''), Some (S ''2: Nie''), Some (S ''6: Nie wiem''), None,
      Some (S ''1: Tak''), Some (S ''2: Nie'')]
   = Likert 1 2 [1 \<mapsto> S ''Tak'', 2 \<mapsto> S ''Nie'', 6 \<mapsto> S ''Nie wiem''] {6}"
proof -
  have "set (stripped_values
     [Some (S ''1: Tak''), Some (S ''2: Nie''), Some (S ''6: Nie wiem''), None,
      Some (S ''1: Tak''), Some (S ''2: Nie'')])
     = {S ''1: Tak'', S ''2: Nie'', S ''6: Nie wiem''}"
    by (simp add: stripped_values_def dropna_def st) (auto simp: S_simps)
  from detect_column_type_tak_nie [OF this] show ?thesis by simp
qed

subsection \<open>Order of the rows\<close>

lemma mset_map_filter:
  "mset xs = mset ys \<Longrightarrow> mset (List.map_filter f xs) = mset (List.map_filter f ys)"
  by (simp add: List.map_filter_def)

lemma mset_stripped_values:
  "mset series = mset series' \<Longrightarrow> mset (stripped_values series) = mset (stripped_values series')"
  by (simp add: stripped_values_alt List.map_filter_def)

lemma float_le_trans:
  "x \<noteq> NaN \<Longrightarrow> y \<noteq> NaN \<Longrightarrow> z \<noteq> NaN \<Longrightarrow> \<not> float_lt y x \<Longrightarrow> \<not> float_lt z y
   \<Longrightarrow> \<not> float_lt z x"
  by (cases x; cases y; cases z) auto

lemma float_le_antisym:
  "x \<noteq> NaN \<Longrightarrow> y \<noteq> NaN \<Longrightarrow> \<not> float_lt x y \<Longrightarrow> \<not> float_lt y x \<Longrightarrow> x = y"
  by (cases x; cases y) auto

lemma float_lt_irrefl: "\<not> float_lt x x"
  by (cases x) auto

lemma float_lt_asym: "float_lt x y \<Longrightarrow> \<not> float_lt y x"
  by (cases x; cases y) auto

lemma py_min_least:
  assumes "NaN \<notin> set (m # xs)"
  shows "py_min m xs \<in> set (m # xs) \<and> (\<forall>y \<in> set (m # xs). \<not> float_lt y (py_min m xs))"
  using assms unfolding py_min_def
proof (induction xs arbitrary: m)
  case Nil then show ?case by (simp add: float_lt_irrefl)
next
  case (Cons a xs)
  let ?m' = "if float_lt a m then a else m"
  let ?r = "foldl (\<lambda>m y. if float_lt y m then y else m) ?m' xs"
  have nn: "NaN \<notin> set (?m' # xs)" using Cons.prems by auto
  from Cons.IH [OF nn] have r: "?r \<in> set (?m' # xs)"
    and least: "\<forall>y \<in> set (?m' # xs). \<not> float_lt y ?r" by blast+
  have rn: "?r \<noteq> NaN" using r nn by metis
  have m'n: "?m' \<noteq> NaN" using nn by auto
  have "\<not> float_lt ?m' ?r" using least by simp
  moreover have "\<not> float_lt m ?m'" "\<not> float_lt a ?m'"
    by (auto simp: float_lt_irrefl float_lt_asym)
  ultimately have "\<not> float_lt m ?r" "\<not> float_lt a ?r"
    using float_le_trans [of ?r ?m'] rn m'n Cons.prems by auto
  moreover have "?r \<in> set (m # a # xs)" using r by auto
  ultimately show ?case using least by simp
qed

lemma py_max_greatest:
  assumes "NaN \<notin> set (m # xs)"
  shows "py_max m xs \<in> set (m # xs) \<and> (\<forall>y \<in> set (m # xs). \<not> float_lt (py_max m xs) y)"
  using assms unfolding py_max_def
proof (induction xs arbitrary: m)
  case Nil then show ?case by (simp add: float_lt_irrefl)
next
  case (Cons a xs)
  let ?m' = "if float_lt m a then a else m"
  let ?r = "foldl (\<lambda>m y. if float_lt m y then y else m) ?m' xs"
  have nn: "NaN \<notin> set (?m' # xs)" using Cons.prems by auto
  from Cons.IH [OF nn] have r: "?r \<in> set (?m' # xs)"
    and greatest: "\<forall>y \<in> set (?m' # xs). \<not> float_lt ?r y" by blast+
  have rn: "?r \<noteq> NaN" using r nn by metis
  have m'n: "?m' \<noteq> NaN" using nn by auto
  have "\<not> float_lt ?r ?m'" using greatest by simp
  moreover have "\<not> float_lt ?m' m" "\<not> float_lt ?m' a"
    by (auto simp: float_lt_irrefl float_lt_asym)
  ultimately have "\<not> float_lt ?r m" "\<not> float_lt ?r a"
    using float_le_trans [of _ ?m' ?r] rn m'n Cons.prems by auto
  moreover have "?r \<in> set (m # a # xs)" using r by auto
  ultimately show ?case using greatest by simp
qed

lemma py_min_set:
  assumes "NaN \<notin> set (x # xs)" "set (x # xs) = set (y # ys)"
  shows "py_min x xs = py_min y ys"
proof -
  have n2: "NaN \<notin> set (y # ys)" using assms by metis
  note a = py_min_least [OF assms(1)] and b = py_min_least [OF n2]
  have "py_min x xs \<noteq> NaN" "py_min y ys \<noteq> NaN" using a b assms(1) n2 by metis+
  moreover have "\<not> float_lt (py_min x xs) (py_min y ys)" using a b assms(2) by metis
  moreover have "\<not> float_lt (py_min y ys) (py_min x xs)" using a b assms(2) by metis
  ultimately show ?thesis by (rule float_le_antisym)
qed

lemma py_max_set:
  assumes "NaN \<notin> set (x # xs)" "set (x # xs) = set (y # ys)"
  shows "py_max x xs = py_max y ys"
proof -
  have n2: "NaN \<notin> set (y # ys)" using assms by metis
  note a = py_max_greatest [OF assms(1)] and b = py_max_greatest [OF n2]
  have "py_max x xs \<noteq> NaN" "py_max y ys \<noteq> NaN" using a b assms(1) n2 by metis+
  moreover have "\<not> float_lt (py_max x xs) (py_max y ys)" using a b assms(2) by metis
  moreover have "\<not> float_lt (py_max y ys) (py_max x xs)" using a b assms(2) by metis
  ultimately show ?thesis by (rule float_le_antisym)
qed


lemma one_label_per_codeD:
  assumes "one_label_per_code vs" "v \<in> set vs" "w \<in> set vs"
    "LIKERT_PREFIX_RE v = Some m" "LIKERT_PREFIX_RE w = Some m'"
    "int_of_digits (fst m) = int_of_digits (fst m')"
  shows "strip (snd m) = strip (snd m')"
  using assms unfolding one_label_per_code_def list_all_iff by fastforce

lemma likert_labels_of_set:
  assumes "one_label_per_code vs" "set vs = set vs'"
  shows "likert_labels_of vs = likert_labels_of vs'"
proof -
  let ?key = "\<lambda>m :: pystr \<times> pystr. int_of_digits (fst m)"
  let ?val = "\<lambda>m :: pystr \<times> pystr. strip (snd m)"
  let ?ms = "List.map_filter LIKERT_PREFIX_RE vs"
  let ?ms' = "List.map_filter LIKERT_PREFIX_RE vs'"
  define g where "g k = ?val (SOME q. q \<in> set ?ms \<and> ?key q = k)" for k
  have eq: "set ?ms = set ?ms'" using assms(2) by (simp add: set_map_filter)
  have fn: "g (?key p) = ?val p" if "p \<in> set ?ms" for p
  proof -
    have "\<exists>q. q \<in> set ?ms \<and> ?key q = ?key p" using that by blast
    then have q: "(SOME q. q \<in> set ?ms \<and> ?key q = ?key p) \<in> set ?ms"
      and k: "?key (SOME q. q \<in> set ?ms \<and> ?key q = ?key p) = ?key p"
      by (rule someI2_ex, blast)+
    from q obtain v where v: "v \<in> set vs"
      "LIKERT_PREFIX_RE v = Some (SOME q. q \<in> set ?ms \<and> ?key q = ?key p)"
      by (auto simp: set_map_filter)
    from that obtain w where w: "w \<in> set vs" "LIKERT_PREFIX_RE w = Some p"
      by (auto simp: set_map_filter)
    show ?thesis unfolding g_def
      by (rule one_label_per_codeD [OF assms(1) v(1) w(1) v(2) w(2) k])
  qed
  have "likert_labels_of vs = (\<lambda>k. if k \<in> ?key ` set ?ms then Some (g k) else Map.empty k)"
    unfolding likert_labels_of_def by (rule foldl_upd_functional) (use fn in blast)
  moreover have "likert_labels_of vs' = (\<lambda>k. if k \<in> ?key ` set ?ms' then Some (g k) else Map.empty k)"
    unfolding likert_labels_of_def by (rule foldl_upd_functional) (use fn eq in blast)
  ultimately show ?thesis using eq by simp
qed

lemma likert_nums_set: "set vs = set vs' \<Longrightarrow> set (likert_nums vs) = set (likert_nums vs')"
  by (simp add: likert_nums_def set_map_filter)

lemma detect_column_type_alt:
  "detect_column_type series =
    (let vs = stripped_values series; nv = List.map_filter py_float vs in
     if vs = [] then Empty
     else if set vs \<subseteq> {S ''MENTIONED'', S ''NOT MENTIONED''} then MultiChoice
     else if real (length (filter (\<lambda>v. LIKERT_PREFIX_RE v \<noteq> None) vs)) > real (length vs) * 0.4
     then (let labels = likert_labels_of vs;
               all_nums = sorted_list_of_set (set (likert_nums vs));
               special = set (filter (\<lambda>n. is_sentinel_label
                                 (lower (case labels n of None \<Rightarrow> [] | Some l \<Rightarrow> l))) all_nums);
               valid_nums = filter (\<lambda>n. n \<notin> special) all_nums
           in Likert (if valid_nums \<noteq> [] then Min (set valid_nums) else Min (set all_nums))
                     (if valid_nums \<noteq> [] then Max (set valid_nums) else Max (set all_nums))
                     labels special)
     else if nv \<noteq> [] \<and> real (length nv) > real (length vs) * 0.5
             \<and> length (filter (\<lambda>v. py_float v = None \<and> strip (lower v) \<notin> SPECIAL_VALUES) vs) = 0
     then NumericScale (py_min (hd nv) (tl nv)) (py_max (hd nv) (tl nv))
     else if card (set vs) > 15 then OpenText (card (set vs))
     else SingleChoice (sorted_list_of_set (set vs)) (card (set vs)))"
  unfolding detect_column_type_def Let_def
  by (cases "List.map_filter py_float (stripped_values series)") simp_all

text \<open>
  C5.  For every column and every permutation of its rows the signature has the same
  variant tag; and it is the same signature altogether when no two values of the column
  carry the same likert code with different labels and no value parses to NaN.
\<close>

theorem detect_column_type_permutation:
  assumes "mset series = mset series'"
  shows "type_of (detect_column_type series) = type_of (detect_column_type series')
       \<and> (one_label_per_code (stripped_values series) \<and> no_nan (stripped_values series)
            \<longrightarrow> detect_column_type series = detect_column_type series')"
proof -
  define vs where "vs = stripped_values series"
  define vs' where "vs' = stripped_values series'"
  define nv where "nv = List.map_filter py_float vs"
  define nv' where "nv' = List.map_filter py_float vs'"
  have m: "mset vs = mset vs'"
    unfolding vs_def vs'_def using assms by (rule mset_stripped_values)
  have len: "length vs = length vs'" using m by (rule mset_eq_length)
  have st: "set vs = set vs'" using m by (rule mset_eq_setD)
  have flt: "length (filter P vs) = length (filter P vs')" for P
  proof -
    have "mset (filter P vs) = mset (filter P vs')" using m by simp
    then show ?thesis by (rule mset_eq_length)
  qed
  have mn: "mset nv = mset nv'" unfolding nv_def nv'_def using m by (rule mset_map_filter)
  have nlen: "length nv = length nv'" using mn by (rule mset_eq_length)
  have nset: "set nv = set nv'" using mn by (rule mset_eq_setD)
  have nil: "(vs = []) = (vs' = [])" using len by auto
  have nnil: "(nv = []) = (nv' = [])" using nlen by auto
  note alt = detect_column_type_alt [of series, unfolded Let_def, folded vs_def, folded nv_def]
    and alt' = detect_column_type_alt [of series', unfolded Let_def, folded vs'_def, folded nv'_def]
  have tag: "type_of (detect_column_type series) = type_of (detect_column_type series')"
    unfolding alt alt' len st nil nnil nlen flt [of _] by simp
  have full: "detect_column_type series = detect_column_type series'"
    if c: "one_label_per_code vs" and n: "no_nan vs"
  proof -
    have lab: "likert_labels_of vs = likert_labels_of vs'"
      using c st by (rule likert_labels_of_set)
    have nums: "set (likert_nums vs) = set (likert_nums vs')"
      using st by (rule likert_nums_set)
    have pm: "py_min (hd nv) (tl nv) = py_min (hd nv') (tl nv')
            \<and> py_max (hd nv) (tl nv) = py_max (hd nv') (tl nv')" if "nv' \<noteq> []"
    proof -
      have ne: "nv \<noteq> []" using that nnil by simp
      have "NaN \<notin> set (hd nv # tl nv)" using n ne by (simp add: no_nan_def nv_def)
      moreover have "set (hd nv # tl nv) = set (hd nv' # tl nv')" using nset that ne by simp
      ultimately show ?thesis using py_min_set py_max_set by blast
    qed
    show ?thesis
      unfolding alt alt' len st nil nnil nlen flt [of _] lab nums using pm by simp
  qed
  show ?thesis using tag full unfolding vs_def by blast
qed

text \<open>
  The values \<open>1: Tak\<close> and \<open>1: Nie\<close> give the code 1 two labels, and the dict
  keeps the label of the later row: the two orders of the column differ in the label
  of code 1.
\<close>

theorem detect_column_type_permutation_counterexample:
  "mset [Some (S ''1: Tak''), Some (S ''1: Nie'')] = mset [Some (S ''1: Nie''), Some (S ''1: Tak'')]
 \<and> detect_column_type [Some (S ''1: Tak''), Some (S ''1: Nie'')]
     \<noteq> detect_column_type [Some (S ''1: Nie''), Some (S ''1: Tak'')]"
proof -
  have re: "LIKERT_PREFIX_RE (S ''1: Tak'') = Some (S ''1'', S ''Tak'')"
    "LIKERT_PREFIX_RE (S ''1: Nie'') = Some (S ''1'', S ''Nie'')"
    by (simp_all add: LIKERT_PREFIX_RE_def S_simps is_digit_def is_space_def)
  have v: "stripped_values [Some (S ''1: Tak''), Some (S ''1: Nie'')] = [S ''1: Tak'', S ''1: Nie'']"
    "stripped_values [Some (S ''1: Nie''), Some (S ''1: Tak'')] = [S ''1: Nie'', S ''1: Tak'']"
    by (simp_all add: stripped_values_def dropna_def strip_def is_space_def S_simps)
  have l1: "likert_labels_of [S ''1: Tak'', S ''1: Nie''] 1 = Some (S ''Nie'')"
    and l2: "likert_labels_of [S ''1: Nie'', S ''1: Tak''] 1 = Some (S ''Tak'')"
    by (simp_all add: likert_labels_of_def List.map_filter_def re)
       (simp_all add: int_of_digits_def strip_def is_space_def S_simps)
  have s1: "set [S ''1: Tak'', S ''1: Nie''] \<subseteq> {S ''MENTIONED'', S ''NOT MENTIONED''} = False"
    and s2: "set [S ''1: Nie'', S ''1: Tak''] \<subseteq> {S ''MENTIONED'', S ''NOT MENTIONED''} = False"
    by (simp_all add: S_simps)
  have "likert_labels (detect_column_type [Some (S ''1: Tak''), Some (S ''1: Nie'')]) 1 = Some (S ''Nie'')"
    unfolding detect_column_type_def Let_def v s1 by (simp add: re l1)
  moreover have "likert_labels (detect_column_type [Some (S ''1: Nie''), Some (S ''1: Tak'')]) 1 = Some (S ''Tak'')"
    unfolding detect_column_type_def Let_def v s2 by (simp add: re l2)
  moreover have "S ''Nie'' \<noteq> S ''Tak''" by (simp add: S_simps)
  ultimately have "detect_column_type [Some (S ''1: Tak''), Some (S ''1: Nie'')]
     \<noteq> detect_column_type [Some (S ''1: Nie''), Some (S ''1: Tak'')]"
    by (metis option.inject)
  then show ?thesis by simp
qed


lemma py_float_tak_nie:
  "py_float (S ''1: Tak'') = None" "py_float (S ''2: Nie'') = None"
  by (simp_all add: py_float_def decimal_value_def digitpart_def strip_def is_space_def
      is_digit_def lower_def lower_cp_def S_simps)

text \<open>The theorem at a column of four rows and the same rows in another order.\<close>

theorem detect_column_type_permutation_witness:
  "detect_column_type [Some (S ''1: Tak''), Some (S ''2: Nie''), None, Some (S ''1: Tak'')]
   = detect_column_type [None, Some (S ''2: Nie''), Some (S ''1: Tak''), Some (S ''1: Tak'')]"
proof -
  have p: "mset [Some (S ''1: Tak''), Some (S ''2: Nie''), None, Some (S ''1: Tak'')]
           = mset [None, Some (S ''2: Nie''), Some (S ''1: Tak''), Some (S ''1: Tak'')]"
    by simp
  have v: "stripped_values [Some (S ''1: Tak''), Some (S ''2: Nie''), None, Some (S ''1: Tak'')]
           = [S ''1: Tak'', S ''2: Nie'', S ''1: Tak'']"
    by (simp add: stripped_values_def dropna_def st) (simp add: S_simps)
  have c: "one_label_per_code [S ''1: Tak'', S ''2: Nie'', S ''1: Tak'']"
    by (simp add: one_label_per_code_def re1 re2) (simp add: int_of_digits_def S_simps)
  have n: "no_nan [S ''1: Tak'', S ''2: Nie'', S ''1: Tak'']"
    by (simp add: no_nan_def List.map_filter_def py_float_tak_nie)
  show ?thesis
    using detect_column_type_permutation [OF p] c n unfolding v by simp
qed

subsection \<open>Multiple-choice cells and the denominator of the percentage\<close>

lemma dict_set_fresh: "k \<notin> fst ` set ps \<Longrightarrow> dict_set k v ps = ps @ [(k, v)]"
  by (induction ps) auto

lemma parse_columns_distinct:
  assumes "distinct (map snd cls)" and "snd ` set cls \<inter> fst ` set result = {}"
    and "\<forall>c \<in> set cls. fst c < length df"
  shows "parse_columns df question cls result
       = Inr (result @ map (\<lambda>c. (snd c, parse_column question (snd (df ! fst c)))) cls)"
  using assms
proof (induction cls arbitrary: result)
  case Nil then show ?case by simp
next
  case (Cons c cls)
  obtain i l where c: "c = (i, l)" by (cases c)
  have fresh: "l \<notin> fst ` set result" using Cons.prems(2) c by auto
  let ?r = "result @ [(l, parse_column question (snd (df ! i)))]"
  have d: "distinct (map snd cls)" and b: "\<forall>c \<in> set cls. fst c < length df"
    using Cons.prems by auto
  have "snd ` set cls \<inter> fst ` set ?r = {}" using Cons.prems(1,2) c by auto
  from Cons.IH [OF d this b] have "parse_columns df question cls ?r
      = Inr (?r @ map (\<lambda>c. (snd c, parse_column question (snd (df ! fst c)))) cls)" .
  then show ?case using Cons.prems(3) c fresh by (simp add: dict_set_fresh)
qed

lemma is_one_flag:
  "filter is_one (map (\<lambda>x. Flag (if P x then 1 else 0)) xs) = map (\<lambda>x. Flag 1) (filter P xs)"
  by (induction xs) auto

text \<open>
  Claim C10.  For a multiple-choice question whose labels are distinct and whose
  columns exist, \<open>get_numeric_data\<close> returns one column per label, and a cell is 1
  exactly when its stripped string form is \<open>MENTIONED\<close>, so a missing cell is 0.  The
  unweighted \<open>multiple_choice_table\<close> of that frame then has, for every label that does
  not start with an underscore, a row whose count is the number of such cells and
  whose percentage is that count over the number of all rows of the frame, missing
  answers included, rounded to one decimal.
\<close>

theorem multiple_choice_missing_is_not_mentioned:
  assumes "question_type q = QT_MULTI_CHOICE"
    and "distinct (column_labels q)"
    and "length (columns q) = length (column_labels q)"
    and "\<forall>i \<in> set (columns q). i < length df"
    and "\<forall>c \<in> set df. length (snd c) = N" and "0 < N"
    and "k < length (columns q)"
    and "\<not> (column_labels q ! k \<noteq> [] \<and> hd (column_labels q ! k) = 95)"
  shows "\<exists>data rows.
      get_numeric_data df q None = Inr data
    \<and> length data = length (columns q)
    \<and> data ! k = (column_labels q ! k,
         map (\<lambda>x. Flag (if strip (py_str x) = S ''MENTIONED'' then 1 else 0))
           (snd (df ! (columns q ! k))))
    \<and> (if strip (py_str None) = S ''MENTIONED'' then 1 else 0) = (0::int)
    \<and> multiple_choice_table data None = Inr rows
    \<and> (column_labels q ! k,
        length (filter (\<lambda>x. strip (py_str x) = S ''MENTIONED'') (snd (df ! (columns q ! k)))),
        round_to 1
          (real (length (filter (\<lambda>x. strip (py_str x) = S ''MENTIONED'')
                   (snd (df ! (columns q ! k))))) / real N * 100)) \<in> set rows"
proof -
  let ?flag = "\<lambda>x. Flag (if strip (py_str x) = S ''MENTIONED'' then 1 else 0)"
  let ?cls = "zip (columns q) (column_labels q)"
  let ?data = "map (\<lambda>c. (snd c, map ?flag (snd (df ! fst c)))) ?cls"
  let ?l = "column_labels q ! k"
  let ?i = "columns q ! k"
  let ?m = "length (filter (\<lambda>x. strip (py_str x) = S ''MENTIONED'') (snd (df ! ?i)))"
  have pc: "parse_column q series = map ?flag series" for series
    using assms(1) by (simp add: parse_column_def QT_MULTI_CHOICE_def QT_LIKERT_def
        QT_NUMERIC_SCALE_def S_def)
  have "distinct (map snd ?cls)" using assms(2,3) by simp
  moreover have "\<forall>c \<in> set ?cls. fst c < length df"
    using assms(4) by (auto dest: set_zip_leftD)
  ultimately have "parse_columns df q ?cls [] = Inr ([] @ map (\<lambda>c. (snd c, parse_column q (snd (df ! fst c)))) ?cls)"
    by (intro parse_columns_distinct) auto
  then have gnd: "get_numeric_data df q None = Inr ?data"
    by (simp add: get_numeric_data_def pc)
  have len: "length ?data = length (columns q)" using assms(3) by simp
  have k: "k < length ?cls" using assms(3,7) by simp
  have dk: "?data ! k = (?l, map ?flag (snd (df ! ?i)))"
    using k assms(3,7) by simp
  have none: "(if strip (py_str None) = S ''MENTIONED'' then 1 else 0) = (0::int)"
    by (simp add: py_str_def strip_def is_space_def S_simps)
  have in_df: "df ! ?i \<in> set df" using assms(4,7) by simp
  have lenk: "length (snd (df ! ?i)) = N" using assms(5) in_df by blast
  have "?data \<noteq> []" using k by auto
  then obtain c cs where cons: "?cls = c # cs" by (cases ?cls) auto
  have "fst c \<in> set (columns q)"
    using cons by (metis list.set_intros(1) set_zip_leftD prod.collapse)
  then have "df ! fst c \<in> set df" using assms(4) by simp
  then have nr: "n_rows ?data = N" using assms(5) cons by (simp add: n_rows_def)
  let ?row = "\<lambda>(col, series). (col, length (filter is_one series),
        round_to 1 (real (length (filter is_one series)) / real N * 100))"
  let ?keep = "filter (\<lambda>c. \<not> (fst c \<noteq> [] \<and> hd (fst c) = 95)) ?data"
  have mem: "(?l, map ?flag (snd (df ! ?i))) \<in> set ?keep"
  proof -
    have "?data ! k \<in> set ?data" using k by (intro nth_mem) simp
    then show ?thesis using assms(8) unfolding dk by simp
  qed
  have "?keep \<noteq> []" using mem by (rule contrapos_pn) simp
  then have ne: "map ?row ?keep \<noteq> []" by (simp only: map_is_Nil_conv not_False_eq_True)
  have tab: "multiple_choice_table ?data None = Inr (sort_key (\<lambda>r. - snd (snd r)) (map ?row ?keep))"
    using ne assms(6) unfolding multiple_choice_table_def Let_def nr
    by (simp add: case_prod_beta)
  have cnt: "length (filter is_one (map ?flag (snd (df ! ?i)))) = ?m"
    by (simp add: is_one_flag)
  have "?row (?l, map ?flag (snd (df ! ?i))) \<in> set (map ?row ?keep)"
    using mem unfolding set_map by (rule imageI)
  then have "(?l, ?m, round_to 1 (real ?m / real N * 100))
      \<in> set (sort_key (\<lambda>r. - snd (snd r)) (map ?row ?keep))"
    unfolding set_sort by (simp only: cnt prod.case)
  with gnd len dk none tab show ?thesis by blast
qed

theorem multiple_choice_missing_is_not_mentioned_witness:
  "\<exists>data rows.
      get_numeric_data
        [(S ''A1. x. a'', [Some (S ''MENTIONED''), None, Some (S '' MENTIONED ''),
                           Some (S ''NOT MENTIONED'')]),
         (S ''A1. x. b'', [None, None, Some (S ''MENTIONED''), Some (S ''mentioned'')])]
        \<lparr>ident = S ''A1'', label = S ''x'', columns = [0, 1],
         column_labels = [S ''a'', S ''b''], question_type = QT_MULTI_CHOICE,
         chart_type = CT_MULTI_BAR, scale_min = None, scale_max = None,
         scale_labels = Map.empty, special_values = {}, is_demographic = False\<rparr>
        None = Inr data
    \<and> data ! 0 = (S ''a'', [Flag 1, Flag 0, Flag 1, Flag 0])
    \<and> multiple_choice_table data None = Inr rows
    \<and> (S ''a'', 2, 50) \<in> set rows"
proof -
  let ?df = "[(S ''A1. x. a'', [Some (S ''MENTIONED''), None, Some (S '' MENTIONED ''),
                           Some (S ''NOT MENTIONED'')]),
         (S ''A1. x. b'', [None, None, Some (S ''MENTIONED''), Some (S ''mentioned'')])]"
  let ?q = "\<lparr>ident = S ''A1'', label = S ''x'', columns = [0, 1],
         column_labels = [S ''a'', S ''b''], question_type = QT_MULTI_CHOICE,
         chart_type = CT_MULTI_BAR, scale_min = None, scale_max = None,
         scale_labels = Map.empty, special_values = {}, is_demographic = False\<rparr>"
  have cells: "strip (py_str (Some (S ''MENTIONED''))) = S ''MENTIONED''"
    "strip (py_str None) \<noteq> S ''MENTIONED''"
    "strip (py_str (Some (S '' MENTIONED ''))) = S ''MENTIONED''"
    "strip (py_str (Some (S ''NOT MENTIONED''))) \<noteq> S ''MENTIONED''"
    by (simp_all add: py_str_def strip_def is_space_def S_simps)
  have r: "round_to (Suc 0) 50 = 50" by (simp add: round_to_def round_half_even_def)
  have h: "\<not> (S ''a'' \<noteq> [] \<and> hd (S ''a'') = 95)" "S ''a'' \<noteq> S ''b''"
    by (simp_all add: S_simps)
  from multiple_choice_missing_is_not_mentioned [of ?q ?df 4 0]
  show ?thesis by (simp add: cells r h numeral_2_eq_2) blast
qed

subsection \<open>An empty questions section\<close>

text \<open>
  Claim C6.  \<open>load_config\<close> raises ValueError for an empty document, an empty
  mapping and a mapping without the key \<open>questions\<close>; a mapping whose \<open>questions\<close>
  section is present and empty does not fail: it loads as no questions and no
  categorical ids.
\<close>

theorem load_config_empty_questions:
  "load_config str YNull = Inl ValueError
 \<and> load_config str (YDict []) = Inl ValueError
 \<and> load_config str (YDict [(YStr (S ''categorical_questions''), YList [YStr (S ''M1'')])])
     = Inl ValueError
 \<and> load_config str (YDict [(YStr (S ''questions''), YList [])]) = Inr ([], None)"
  by (simp add: load_config_def S_simps)

end
